theory Spec2Isabelle
  imports
    Complex_Main
    "HOL-Library.Char_ord"
    "HOL-Library.List_Lexorder"
    "HOL-Library.Product_Lexorder"
    "HOL-Library.Multiset"
begin

section \<open>Damage cost estimation: the pipeline of \<open>scripts/estimate_damage_python.py\<close>\<close>

text \<open>
  The script resolves a damage type, selects a price book, matches the measured size to a
  severity band, fetches the cost rows of the damage type's activities and derives one
  estimate per row, then prints the lines and three totals.

  Modelling conventions.
  \<^item> The measured size, the ranges of the bands and the conversion factors are IEEE 754
    doubles (Python floats), since the matcher branches on comparisons of rounded values.
    The cost columns and the cost arithmetic, on which no branch depends, are modelled over
    \<open>real\<close>: there arithmetic is exact and rounding is not modelled.
  \<^item> A table is the list of its rows in the order the data store returns them; a query without
    \<open>ORDER BY\<close> returns its rows in nested-loop order over the joined tables.
  \<^item> SQL \<open>=\<close> on character columns ignores trailing blanks and compares the characters as
    the collation of the database prescribes; the collation is not part of the sources and
    is a parameter of the data store. SQL \<open>NULL\<close> is \<open>None\<close>.
  \<^item> The language is one of \<open>nl\<close> and \<open>en\<close> (the choices of the argument parser), for which
    the test \<open>?='en'\<close> holds exactly when the language is \<open>en\<close>.
  \<^item> Every \<open>raise\<close> is a value \<open>Inl e\<close>; \<open>cursor.fetchone()\<close> is the head of the result list.
\<close>

subsection \<open>Double precision numbers\<close>

text \<open>
  A finite double \<open>Finite m e\<close> has the value \<open>m * 2 ^ e\<close>, with a mantissa of 53 bits and an
  exponent from \<open>-1074\<close> to \<open>971\<close>, or a shorter mantissa at the exponent \<open>-1074\<close> (zero and
  the subnormal numbers). The sign of zero, which no comparison observes, is not modelled.
\<close>

datatype double = Finite int int | PInf | NInf | NaN

text \<open>The number of binary digits of a positive integer.\<close>

function bits :: "int \<Rightarrow> int" where
  "bits n = (if n \<le> 0 then 0 else 1 + bits (n div 2))"
  by pat_completeness auto
termination
  by (relation "measure nat") auto

declare bits.simps [simp del]

text \<open>
  Rounding of the exact value \<open>m * 2 ^ e\<close> to the nearest double, ties to the even mantissa.
  The mantissa is brought to 53 bits, or to the bits above the least exponent for a subnormal
  result; a result beyond the largest exponent is an infinity.
\<close>

definition finite_or_inf :: "int \<Rightarrow> int \<Rightarrow> double" where
  "finite_or_inf q e =
     (if q = 0 then Finite 0 (- 1074)
      else if 971 < e then (if q < 0 then NInf else PInf)
      else Finite q e)"

text \<open>The integer nearest to \<open>q + r / d\<close> for \<open>0 \<le> r < d\<close>, the even one on a tie.\<close>

definition nearest_even :: "int \<Rightarrow> int \<Rightarrow> int \<Rightarrow> int" where
  "nearest_even q r d =
     (if 2 * r < d then q else if d < 2 * r then q + 1 else if even q then q else q + 1)"

text \<open>A mantissa rounded up to \<open>2 ^ 53\<close> moves to the next exponent.\<close>

definition carry :: "int \<Rightarrow> int \<Rightarrow> double" where
  "carry q e = (if \<bar>q\<bar> = 2 ^ 53 then finite_or_inf (q div 2) (e + 1) else finite_or_inf q e)"

text \<open>Rounding to the exponent \<open>e'\<close>: exact when it is not above \<open>e\<close>, dropping bits otherwise.\<close>

definition rnd_to :: "int \<Rightarrow> int \<Rightarrow> int \<Rightarrow> double" where
  "rnd_to m e e' =
     (if e' \<le> e then finite_or_inf (m * 2 ^ nat (e - e')) e'
      else carry (nearest_even (m div 2 ^ nat (e' - e)) (m mod 2 ^ nat (e' - e))
                    (2 ^ nat (e' - e))) e')"

definition rnd :: "int \<Rightarrow> int \<Rightarrow> double" where
  "rnd m e =
     (if m = 0 then Finite 0 (- 1074) else rnd_to m e (max (e + bits \<bar>m\<bar> - 53) (- 1074)))"

text \<open>The conversion of an integer to a double, as for the integers 0 and 1 of the score.\<close>

definition D :: "int \<Rightarrow> double" where
  "D i = rnd i 0"

text \<open>The real value of a finite double; the non-finite ones have none and are sent to 0.\<close>

fun valof :: "double \<Rightarrow> real" where
  "valof (Finite m e) = of_int m * 2 powi e"
| "valof PInf = 0"
| "valof NInf = 0"
| "valof NaN = 0"

text \<open>Negation, absolute value, addition, subtraction and multiplication.\<close>

fun dneg :: "double \<Rightarrow> double" where
  "dneg (Finite m e) = Finite (- m) e"
| "dneg PInf = NInf"
| "dneg NInf = PInf"
| "dneg NaN = NaN"

fun dabs :: "double \<Rightarrow> double" where
  "dabs (Finite m e) = Finite \<bar>m\<bar> e"
| "dabs PInf = PInf"
| "dabs NInf = PInf"
| "dabs NaN = NaN"

fun dadd :: "double \<Rightarrow> double \<Rightarrow> double" where
  "dadd (Finite m1 e1) (Finite m2 e2) =
     rnd (m1 * 2 ^ nat (e1 - min e1 e2) + m2 * 2 ^ nat (e2 - min e1 e2)) (min e1 e2)"
| "dadd NaN _ = NaN"
| "dadd _ NaN = NaN"
| "dadd PInf NInf = NaN"
| "dadd NInf PInf = NaN"
| "dadd PInf _ = PInf"
| "dadd NInf _ = NInf"
| "dadd _ PInf = PInf"
| "dadd _ NInf = NInf"

definition dsub :: "double \<Rightarrow> double \<Rightarrow> double" where
  "dsub a b = dadd a (dneg b)"

fun dsgn :: "double \<Rightarrow> int" where
  "dsgn (Finite m e) = sgn m"
| "dsgn PInf = 1"
| "dsgn NInf = - 1"
| "dsgn NaN = 0"

fun dmul :: "double \<Rightarrow> double \<Rightarrow> double" where
  "dmul (Finite m1 e1) (Finite m2 e2) = rnd (m1 * m2) (e1 + e2)"
| "dmul NaN _ = NaN"
| "dmul _ NaN = NaN"
| "dmul a b = (if dsgn a * dsgn b = 0 then NaN else if dsgn a * dsgn b < 0 then NInf else PInf)"

text \<open>Division by the constant \<open>2.0\<close>, the only division of the matcher.\<close>

fun ddiv2 :: "double \<Rightarrow> double" where
  "ddiv2 (Finite m e) = rnd m (e - 1)"
| "ddiv2 x = x"

text \<open>The comparisons \<open><\<close> and \<open><=\<close>: false whenever an operand is not a number.\<close>

fun dlt :: "double \<Rightarrow> double \<Rightarrow> bool" where
  "dlt (Finite m1 e1) (Finite m2 e2) = (valof (Finite m1 e1) < valof (Finite m2 e2))"
| "dlt NaN _ = False"
| "dlt _ NaN = False"
| "dlt _ NInf = False"
| "dlt PInf _ = False"
| "dlt NInf _ = True"
| "dlt _ PInf = True"

fun dle :: "double \<Rightarrow> double \<Rightarrow> bool" where
  "dle (Finite m1 e1) (Finite m2 e2) = (valof (Finite m1 e1) \<le> valof (Finite m2 e2))"
| "dle NaN _ = False"
| "dle _ NaN = False"
| "dle NInf _ = True"
| "dle _ PInf = True"
| "dle _ NInf = False"
| "dle PInf _ = False"

subsection \<open>Tables of the data store\<close>

record damage_type =
  dt_damage_type_id :: int
  dt_code_en :: string
  dt_code_nl :: string

record unit_row =
  u_unit_id :: int
  u_symbol :: string
  u_conversion_to_base :: double

record severity_band =
  sb_severity_band_id :: int
  sb_damage_type_id :: int
  sb_band_label :: string
  sb_range_min :: double
  sb_range_max :: double
  sb_unit_id :: int

record price_book_version =
  pb_price_book_id :: int
  pb_year_label :: int

record damage_type_activity =
  dta_damage_type_id :: int
  dta_activity_id :: int
  dta_sequence_order :: int
  dta_is_required :: bool

record activity =
  a_activity_id :: int
  a_code_en :: string
  a_code_nl :: string
  a_name_en :: string
  a_name_nl :: string

record activity_cost =
  ac_activity_id :: int
  ac_price_book_id :: int
  ac_severity_band_id :: "int option"
  ac_labor_unit_cost :: "real option"
  ac_labor_cost_min :: "real option"
  ac_labor_cost_max :: "real option"
  ac_material_unit_cost :: "real option"
  ac_material_cost_min :: "real option"
  ac_material_cost_max :: "real option"
  ac_labor_unit_id :: "int option"
  ac_material_unit_id :: "int option"

text \<open>
  The view \<open>Damage.vActivityCostFull\<close> is created by a migration that is not part of the
  sources; its rows are taken as given, with the three columns the script reads.
\<close>

record v_activity_cost_full =
  v_price_year :: int
  v_damage_type_code_en :: string
  v_damage_type_code_nl :: string

text \<open>
  The collation of the database as the key it compares characters by: the identity for a
  case-sensitive collation, a case folding for a case-insensitive one.
\<close>

record data_store =
  Collation :: "char \<Rightarrow> char"
  Damage_DamageType :: "damage_type list"
  Damage_Unit :: "unit_row list"
  Damage_SeverityBand :: "severity_band list"
  Damage_PriceBookVersion :: "price_book_version list"
  Damage_DamageTypeActivity :: "damage_type_activity list"
  Damage_Activity :: "activity list"
  Damage_ActivityCost :: "activity_cost list"
  Damage_vActivityCostFull :: "v_activity_cost_full list"

subsection \<open>Inputs, errors and results\<close>

record args =
  language :: string
  damage_code :: "string option"
  description :: "string option"
  size :: double
  unit :: string
  price_year :: "int option"

text \<open>
  What the run reads from outside the data store: whether the \<open>openai\<close> package was
  imported, the environment variable \<open>OPENAI_API_KEY\<close>, and the text of the classifier's
  reply (\<open>resp.choices[0].message.content\<close>). The classifier is an external service whose
  answer is not determined by the prompt, so the reply is an input of the run; the prompt
  assembled from the candidate list only feeds that call and is not modelled.
\<close>

record environment =
  OpenAI :: bool
  OPENAI_API_KEY :: "string option"
  openai_reply :: string

text \<open>The messages of the \<open>ValueError\<close>s the script raises, one constructor per raise.\<close>

datatype value_error =
    Damage_type_code_not_found string
  | Either_damage_code_or_description
  | Model_returned_an_unknown_code string
  | No_price_book_years_found
  | Price_book_for_year_not_found int
  | Unit_not_found string
  | No_severity_bands_configured
  | No_costs_found

datatype error =
    ValueError value_error
  | ImportError
  | EnvironmentError
  | IndexError
  | AssertionError

record band_row =
  severity_band_id :: int
  band_label :: string
  range_min :: double
  range_max :: double
  severity_unit :: string
  conv :: double

record band_info =
  bi_severity_band_id :: int
  bi_band_label :: string
  bi_range_min :: double
  bi_range_max :: double
  bi_severity_unit :: string

record cost_row =
  activity_id :: int
  activity_code :: string
  activity_name :: string
  sequence_order :: int
  is_required :: bool
  labor_unit_cost :: "real option"
  labor_cost_min :: "real option"
  labor_cost_max :: "real option"
  material_unit_cost :: "real option"
  material_cost_min :: "real option"
  material_cost_max :: "real option"
  labor_unit :: "string option"
  material_unit :: "string option"

record estimate_line =
  e_activity_code :: string
  e_activity_name :: string
  e_is_required :: bool
  e_sequence_order :: int
  e_labor_unit :: "string option"
  e_material_unit :: "string option"
  e_labor_cost_min :: "real option"
  e_labor_cost_max :: "real option"
  e_material_cost_min :: "real option"
  e_material_cost_max :: "real option"
  e_labor_unit_cost :: "real option"
  e_material_unit_cost :: "real option"
  estimated_labor :: "real option"
  estimated_material :: "real option"

text \<open>What \<open>main\<close> prints on success.\<close>

record report =
  r_code_used :: string
  r_language :: string
  r_price_year :: int
  r_band_info :: band_info
  r_size :: double
  r_unit :: string
  r_size_in_base :: double
  r_lines :: "estimate_line list"
  r_total_labor :: real
  r_total_material :: real
  r_grand_total :: real

subsection \<open>Python string helpers\<close>

text \<open>
  \<open>str.isspace\<close> on the code points below 256: TAB, LF, VT, FF, CR, the separators
  \<open>0x1c\<close> to \<open>0x1f\<close>, the space, NEL and the no-break space.
\<close>

definition isspace :: "char \<Rightarrow> bool" where
  "isspace c = (of_char c \<in> {9, 10, 11, 12, 13, 28, 29, 30, 31, 32, 133, 160 :: nat})"

definition strip :: "string \<Rightarrow> string" where
  "strip s = rev (dropWhile isspace (rev (dropWhile isspace s)))"

text \<open>
  \<open>str.split()\<close> without a separator: scan the string once, \<open>cur\<close> holding the current
  token reversed; runs of whitespace separate the tokens and produce no empty token.
\<close>

fun split_scan :: "string \<Rightarrow> string \<Rightarrow> string list" where
  "split_scan cur [] = (if cur = [] then [] else [rev cur])"
| "split_scan cur (c # cs) =
     (if isspace c
      then (if cur = [] then split_scan [] cs else rev cur # split_scan [] cs)
      else split_scan (c # cur) cs)"

definition split :: "string \<Rightarrow> string list" where
  "split s = split_scan [] s"

text \<open>Python truthiness of an optional string: \<open>None\<close> and the empty string are false.\<close>

fun truthy :: "string option \<Rightarrow> bool" where
  "truthy None = False"
| "truthy (Some s) = (s \<noteq> [])"

subsection \<open>Comparison of character data in the data store\<close>

text \<open>
  The data store is a SQL Server database. Its \<open>=\<close> on character data pads the shorter operand
  with blanks, so trailing blanks never distinguish two strings, and compares what remains
  character by character under the collation.
\<close>

definition rtrim :: "string \<Rightarrow> string" where
  "rtrim s = rev (dropWhile (\<lambda>c. c = CHR '' '') (rev s))"

definition sql_eq :: "data_store \<Rightarrow> string \<Rightarrow> string \<Rightarrow> bool" where
  "sql_eq db a b = (map (Collation db) (rtrim a) = map (Collation db) (rtrim b))"

subsection \<open>\<open>fetch_damage_type_code\<close>\<close>

text \<open>
  The query issued twice by the resolver:
  \<^verbatim>\<open>SELECT damage_type_id, CASE WHEN ?='en' THEN code_en ELSE code_nl END AS code_used
  FROM Damage.DamageType WHERE code_en = ? OR code_nl = ?\<close>
\<close>

definition select_damage_type :: "data_store \<Rightarrow> string \<Rightarrow> string \<Rightarrow> (int \<times> string) list" where
  "select_damage_type db lang code =
     [(dt_damage_type_id d, if lang = ''en'' then dt_code_en d else dt_code_nl d).
        d \<leftarrow> Damage_DamageType db,
        sql_eq db (dt_code_en d) code \<or> sql_eq db (dt_code_nl d) code]"

definition fetch_damage_type_code ::
  "environment \<Rightarrow> data_store \<Rightarrow> string \<Rightarrow> string option \<Rightarrow> string option \<Rightarrow> error + (int \<times> string)"
where
  "fetch_damage_type_code env db lang dcode descr =
     (let classified =
        (if \<not> truthy descr then Inl (ValueError Either_damage_code_or_description)
         else if \<not> OpenAI env then Inl ImportError
         else if \<not> truthy (OPENAI_API_KEY env) then Inl EnvironmentError
         else
           (case split (strip (openai_reply env)) of
              [] \<Rightarrow> Inl IndexError
            | code_guess # _ \<Rightarrow>
                (case select_damage_type db lang code_guess of
                   [] \<Rightarrow> Inl (ValueError (Model_returned_an_unknown_code code_guess))
                 | row # _ \<Rightarrow> Inr row)))
      in case dcode of
           None \<Rightarrow> classified
         | Some c \<Rightarrow>
             if c = [] then classified
             else
               (case select_damage_type db lang c of
                  [] \<Rightarrow> Inl (ValueError (Damage_type_code_not_found c))
                | row # _ \<Rightarrow> Inr row))"

subsection \<open>\<open>resolve_price_book_id\<close>\<close>

text \<open>SQL \<open>MAX\<close>: \<open>NULL\<close> over no rows, the greatest value otherwise.\<close>

fun sql_max :: "int list \<Rightarrow> int option" where
  "sql_max [] = None"
| "sql_max (x # xs) = Some (fold max xs x)"

definition select_years :: "data_store \<Rightarrow> string \<Rightarrow> string \<Rightarrow> int list" where
  "select_years db lang code =
     [v_price_year v. v \<leftarrow> Damage_vActivityCostFull db,
        sql_eq db (if lang = ''en'' then v_damage_type_code_en v else v_damage_type_code_nl v)
          code]"

definition select_price_book :: "data_store \<Rightarrow> int \<Rightarrow> int list" where
  "select_price_book db year =
     [pb_price_book_id p. p \<leftarrow> Damage_PriceBookVersion db, pb_year_label p = year]"

definition lookup_price_book :: "data_store \<Rightarrow> int \<Rightarrow> error + (int \<times> int)" where
  "lookup_price_book db year =
     (case select_price_book db year of
        [] \<Rightarrow> Inl (ValueError (Price_book_for_year_not_found year))
      | pb # _ \<Rightarrow> Inr (pb, year))"

definition resolve_price_book_id ::
  "data_store \<Rightarrow> int \<Rightarrow> string \<Rightarrow> string \<Rightarrow> int option \<Rightarrow> error + (int \<times> int)"
where
  "resolve_price_book_id db damage_type_id lang code year =
     (case year of
        None \<Rightarrow>
          (case sql_max (select_years db lang code) of
             None \<Rightarrow> Inl (ValueError No_price_book_years_found)
           | Some max_year \<Rightarrow> lookup_price_book db max_year)
      | Some y \<Rightarrow> lookup_price_book db y)"

subsection \<open>\<open>pick_severity_band\<close>\<close>

definition select_unit :: "data_store \<Rightarrow> string \<Rightarrow> unit_row list" where
  "select_unit db unit_symbol =
     [u. u \<leftarrow> Damage_Unit db, sql_eq db (u_symbol u) unit_symbol]"

text \<open>
  \<^verbatim>\<open>SELECT sb.severity_band_id, sb.band_label, sb.range_min, sb.range_max,
         u.symbol AS severity_unit, u.conversion_to_base AS conv
  FROM Damage.SeverityBand sb JOIN Damage.Unit u ON u.unit_id = sb.unit_id
  WHERE sb.damage_type_id = ?\<close>
\<close>

definition select_bands :: "data_store \<Rightarrow> int \<Rightarrow> band_row list" where
  "select_bands db damage_type_id =
     [\<lparr>severity_band_id = sb_severity_band_id sb, band_label = sb_band_label sb,
        range_min = sb_range_min sb, range_max = sb_range_max sb,
        severity_unit = u_symbol u, conv = u_conversion_to_base u\<rparr>.
        sb \<leftarrow> Damage_SeverityBand db, u \<leftarrow> Damage_Unit db,
        u_unit_id u = sb_unit_id sb, sb_damage_type_id sb = damage_type_id]"

text \<open>
  The loop over the bands, with the two variables \<open>best\<close> and \<open>best_score\<close> it updates.
\<close>

fun band_loop ::
  "band_row list \<Rightarrow> double \<Rightarrow> band_row option \<Rightarrow> double option
     \<Rightarrow> band_row option \<times> double option"
where
  "band_loop [] size_in_base best best_score = (best, best_score)"
| "band_loop (b # bands) size_in_base best best_score =
     (let min_base = dmul (range_min b) (conv b);
          max_base = dmul (range_max b) (conv b);
          in_range = (dle min_base size_in_base \<and> dle size_in_base max_base);
          mid = ddiv2 (dadd min_base max_base);
          score = dadd (if in_range then D 0 else D 1) (dabs (dsub mid size_in_base))
      in if (case best_score of None \<Rightarrow> True | Some s \<Rightarrow> dlt score s)
         then band_loop bands size_in_base (Some b) (Some score)
         else band_loop bands size_in_base best best_score)"

definition pick_severity_band ::
  "data_store \<Rightarrow> int \<Rightarrow> double \<Rightarrow> string \<Rightarrow> error + (int \<times> band_info \<times> double)"
where
  "pick_severity_band db damage_type_id size_value unit_symbol =
     (case select_unit db unit_symbol of
        [] \<Rightarrow> Inl (ValueError (Unit_not_found unit_symbol))
      | u # _ \<Rightarrow>
          (let size_in_base = dmul size_value (u_conversion_to_base u);
               bands = select_bands db damage_type_id
           in if bands = [] then Inl (ValueError No_severity_bands_configured)
              else
                (case fst (band_loop bands size_in_base None None) of
                   None \<Rightarrow> Inl AssertionError
                 | Some best \<Rightarrow>
                     Inr (severity_band_id best,
                          \<lparr>bi_severity_band_id = severity_band_id best,
                           bi_band_label = band_label best,
                           bi_range_min = range_min best,
                           bi_range_max = range_max best,
                           bi_severity_unit = severity_unit best\<rparr>,
                          size_in_base))))"

subsection \<open>\<open>fetch_cost_rows\<close>\<close>

text \<open>\<open>LEFT JOIN Damage.Unit ON unit_id = ?\<close>: the symbols of the matching units, or one \<open>NULL\<close>.\<close>

definition left_join_unit :: "data_store \<Rightarrow> int option \<Rightarrow> string option list" where
  "left_join_unit db uid =
     (case [u_symbol u. u \<leftarrow> Damage_Unit db, Some (u_unit_id u) = uid] of
        [] \<Rightarrow> [None]
      | syms \<Rightarrow> map Some syms)"

text \<open>The join condition on \<open>Damage.ActivityCost\<close>.\<close>

definition applicable :: "int \<Rightarrow> int \<Rightarrow> int \<Rightarrow> activity_cost \<Rightarrow> bool" where
  "applicable aid price_book_id sbid ac =
     (ac_activity_id ac = aid \<and> ac_price_book_id ac = price_book_id \<and>
      (ac_severity_band_id ac = None \<or> ac_severity_band_id ac = Some sbid))"

text \<open>The select list: the columns of one joined row.\<close>

definition cost_row_of ::
  "string \<Rightarrow> damage_type_activity \<Rightarrow> activity \<Rightarrow> activity_cost \<Rightarrow> string option \<Rightarrow> string option
     \<Rightarrow> cost_row"
where
  "cost_row_of lang dta a ac ul um =
     \<lparr>activity_id = a_activity_id a,
      activity_code = (if lang = ''en'' then a_code_en a else a_code_nl a),
      activity_name = (if lang = ''en'' then a_name_en a else a_name_nl a),
      sequence_order = dta_sequence_order dta,
      is_required = dta_is_required dta,
      labor_unit_cost = ac_labor_unit_cost ac,
      labor_cost_min = ac_labor_cost_min ac,
      labor_cost_max = ac_labor_cost_max ac,
      material_unit_cost = ac_material_unit_cost ac,
      material_cost_min = ac_material_cost_min ac,
      material_cost_max = ac_material_cost_max ac,
      labor_unit = ul, material_unit = um\<rparr>"

text \<open>
  The joins and the \<open>WHERE\<close> clause:
  \<^verbatim>\<open>FROM Damage.DamageTypeActivity dta
  JOIN Damage.Activity a ON a.activity_id = dta.activity_id
  JOIN Damage.ActivityCost ac ON ac.activity_id = a.activity_id AND ac.price_book_id = ?
       AND (ac.severity_band_id IS NULL OR ac.severity_band_id = ?)
  LEFT JOIN Damage.Unit ul ON ul.unit_id = ac.labor_unit_id
  LEFT JOIN Damage.Unit um ON um.unit_id = ac.material_unit_id
  WHERE dta.damage_type_id = ?\<close>
\<close>

definition joined_cost_rows :: "data_store \<Rightarrow> int \<Rightarrow> int \<Rightarrow> int \<Rightarrow> string \<Rightarrow> cost_row list" where
  "joined_cost_rows db damage_type_id price_book_id sbid lang =
     [cost_row_of lang dta a ac ul um.
        dta \<leftarrow> Damage_DamageTypeActivity db,
        dta_damage_type_id dta = damage_type_id,
        a \<leftarrow> Damage_Activity db,
        a_activity_id a = dta_activity_id dta,
        ac \<leftarrow> Damage_ActivityCost db,
        applicable (a_activity_id a) price_book_id sbid ac,
        ul \<leftarrow> left_join_unit db (ac_labor_unit_id ac),
        um \<leftarrow> left_join_unit db (ac_material_unit_id ac)]"

text \<open>\<open>ORDER BY dta.sequence_order, activity_code\<close>.\<close>

definition fetch_cost_rows :: "data_store \<Rightarrow> int \<Rightarrow> int \<Rightarrow> int \<Rightarrow> string \<Rightarrow> cost_row list" where
  "fetch_cost_rows db damage_type_id price_book_id sbid lang =
     sort_key (\<lambda>r. (sequence_order r, activity_code r))
       (joined_cost_rows db damage_type_id price_book_id sbid lang)"

subsection \<open>\<open>estimate_costs\<close>\<close>

definition estimate_row :: "cost_row \<Rightarrow> real \<Rightarrow> estimate_line" where
  "estimate_row r size_in_base =
     (let labor_est =
            (case labor_unit_cost r of
               Some c \<Rightarrow> Some (c * size_in_base)
             | None \<Rightarrow>
                 (case (labor_cost_min r, labor_cost_max r) of
                    (Some lo, Some hi) \<Rightarrow> Some ((lo + hi) / 2)
                  | _ \<Rightarrow> labor_cost_min r));
          material_est =
            (case material_unit_cost r of
               Some c \<Rightarrow> Some (c * size_in_base)
             | None \<Rightarrow>
                 (case (material_cost_min r, material_cost_max r) of
                    (Some lo, Some hi) \<Rightarrow> Some ((lo + hi) / 2)
                  | _ \<Rightarrow> material_cost_min r))
      in \<lparr>e_activity_code = activity_code r,
          e_activity_name = activity_name r,
          e_is_required = is_required r,
          e_sequence_order = sequence_order r,
          e_labor_unit = labor_unit r,
          e_material_unit = material_unit r,
          e_labor_cost_min = labor_cost_min r,
          e_labor_cost_max = labor_cost_max r,
          e_material_cost_min = material_cost_min r,
          e_material_cost_max = material_cost_max r,
          e_labor_unit_cost = labor_unit_cost r,
          e_material_unit_cost = material_unit_cost r,
          estimated_labor = labor_est,
          estimated_material = material_est\<rparr>)"

fun estimate_costs :: "cost_row list \<Rightarrow> real \<Rightarrow> estimate_line list" where
  "estimate_costs [] size_in_base = []"
| "estimate_costs (r # rows) size_in_base = estimate_row r size_in_base # estimate_costs rows size_in_base"

subsection \<open>\<open>main\<close>\<close>

text \<open>\<open>x or 0\<close> on an optional number.\<close>

fun or0 :: "real option \<Rightarrow> real" where
  "or0 None = 0"
| "or0 (Some x) = x"

text \<open>The builtin \<open>sum\<close>: start from 0 and add the items from left to right.\<close>

definition py_sum :: "real list \<Rightarrow> real" where
  "py_sum xs = foldl (+) 0 xs"

text \<open>
  The estimates are computed over the reals from the value of the size in base units.
\<close>

definition main :: "environment \<Rightarrow> data_store \<Rightarrow> args \<Rightarrow> error + report" where
  "main env db a =
     (case fetch_damage_type_code env db (language a) (damage_code a) (description a) of
        Inl e \<Rightarrow> Inl e
      | Inr (damage_type_id, code_used) \<Rightarrow>
     (case resolve_price_book_id db damage_type_id (language a) code_used (price_year a) of
        Inl e \<Rightarrow> Inl e
      | Inr (price_book_id, year) \<Rightarrow>
     (case pick_severity_band db damage_type_id (size a) (unit a) of
        Inl e \<Rightarrow> Inl e
      | Inr (sbid, info, size_in_base) \<Rightarrow>
     (let rows = fetch_cost_rows db damage_type_id price_book_id sbid (language a)
      in if rows = [] then Inl (ValueError No_costs_found)
         else
           (let estimates = estimate_costs rows (valof size_in_base);
                total_labor = py_sum (map (\<lambda>e. or0 (estimated_labor e)) estimates);
                total_material = py_sum (map (\<lambda>e. or0 (estimated_material e)) estimates)
            in Inr \<lparr>r_code_used = code_used, r_language = language a, r_price_year = year,
                    r_band_info = info, r_size = size a, r_unit = unit a,
                    r_size_in_base = size_in_base, r_lines = estimates,
                    r_total_labor = total_labor, r_total_material = total_material,
                    r_grand_total = total_labor + total_material\<rparr>)))))"

subsection \<open>Reference formulations\<close>

text \<open>
  The fallback rule of one cost category, case by case: the unit cost times the size when a
  unit cost is present, else the mean of the range when both ends are present, else the lower
  end when it is present, else nothing.
\<close>

definition spec_estimate :: "real option \<Rightarrow> real option \<Rightarrow> real option \<Rightarrow> real \<Rightarrow> real option" where
  "spec_estimate unit_cost cost_min cost_max size_in_base =
     (if unit_cost \<noteq> None then Some (the unit_cost * size_in_base)
      else if cost_min \<noteq> None \<and> cost_max \<noteq> None then Some ((the cost_min + the cost_max) / 2)
      else if cost_min \<noteq> None then cost_min
      else None)"

text \<open>
  The score of a band for a size in base units, in double precision as the matcher computes
  it: the range converted with the band's own conversion factor, 0 inside the range (ends
  included) and 1 outside, plus the distance between the midpoint of the range and the size.
\<close>

definition in_range :: "band_row \<Rightarrow> double \<Rightarrow> bool" where
  "in_range b size_in_base =
     (dle (dmul (range_min b) (conv b)) size_in_base \<and>
      dle size_in_base (dmul (range_max b) (conv b)))"

definition midpoint :: "band_row \<Rightarrow> double" where
  "midpoint b = ddiv2 (dadd (dmul (range_min b) (conv b)) (dmul (range_max b) (conv b)))"

definition band_score :: "band_row \<Rightarrow> double \<Rightarrow> double" where
  "band_score b size_in_base =
     dadd (if in_range b size_in_base then D 0 else D 1) (dabs (dsub (midpoint b) size_in_base))"

text \<open>
  The band at position \<open>i\<close> is the first of least score: no band has a smaller score, and no
  band before it has a score that is smaller or equal.
\<close>

definition first_min_at :: "band_row list \<Rightarrow> double \<Rightarrow> nat \<Rightarrow> bool" where
  "first_min_at bands s i =
     (i < length bands
      \<and> (\<forall>j < length bands. \<not> dlt (band_score (bands ! j) s) (band_score (bands ! i) s))
      \<and> (\<forall>j < i. \<not> dle (band_score (bands ! j) s) (band_score (bands ! i) s)))"

definition info_of :: "band_row \<Rightarrow> band_info" where
  "info_of b = \<lparr>bi_severity_band_id = severity_band_id b, bi_band_label = band_label b,
                bi_range_min = range_min b, bi_range_max = range_max b,
                bi_severity_unit = severity_unit b\<rparr>"

text \<open>
  The first whitespace-delimited token of a string: skip the leading whitespace, then take
  the characters up to the next whitespace.
\<close>

definition first_token :: "string \<Rightarrow> string" where
  "first_token reply = takeWhile (\<lambda>c. \<not> isspace c) (dropWhile isspace reply)"

subsection \<open>Sample data\<close>

text \<open>
  One damage type with the bands small (0 to 5) and large (5 to 100) in the base unit, price
  books for 2021 and 2023, and two activities with one cost row each in the 2023 book.
\<close>

definition sample_store :: data_store where
  "sample_store =
     \<lparr>Collation = (\<lambda>c. c),
      Damage_DamageType =
        [\<lparr>dt_damage_type_id = 1, dt_code_en = ''UNKNOWN_GENERAL'', dt_code_nl = ''ONBEKEND_ALGEMEEN''\<rparr>],
      Damage_Unit = [\<lparr>u_unit_id = 1, u_symbol = ''m2'', u_conversion_to_base = D 1\<rparr>],
      Damage_SeverityBand =
        [\<lparr>sb_severity_band_id = 1, sb_damage_type_id = 1, sb_band_label = ''small'',
          sb_range_min = D 0, sb_range_max = D 5, sb_unit_id = 1\<rparr>,
         \<lparr>sb_severity_band_id = 2, sb_damage_type_id = 1, sb_band_label = ''large'',
          sb_range_min = D 5, sb_range_max = D 100, sb_unit_id = 1\<rparr>],
      Damage_PriceBookVersion =
        [\<lparr>pb_price_book_id = 10, pb_year_label = 2021\<rparr>,
         \<lparr>pb_price_book_id = 11, pb_year_label = 2023\<rparr>],
      Damage_DamageTypeActivity =
        [\<lparr>dta_damage_type_id = 1, dta_activity_id = 100, dta_sequence_order = 1, dta_is_required = True\<rparr>,
         \<lparr>dta_damage_type_id = 1, dta_activity_id = 101, dta_sequence_order = 2, dta_is_required = False\<rparr>],
      Damage_Activity =
        [\<lparr>a_activity_id = 100, a_code_en = ''CLEAN'', a_code_nl = ''REINIGEN'',
          a_name_en = ''Cleaning'', a_name_nl = ''Reinigen''\<rparr>,
         \<lparr>a_activity_id = 101, a_code_en = ''INSPECT'', a_code_nl = ''INSPECTIE'',
          a_name_en = ''Inspection'', a_name_nl = ''Inspectie''\<rparr>],
      Damage_ActivityCost =
        [\<lparr>ac_activity_id = 100, ac_price_book_id = 11, ac_severity_band_id = None,
          ac_labor_unit_cost = Some 10, ac_labor_cost_min = None, ac_labor_cost_max = None,
          ac_material_unit_cost = None, ac_material_cost_min = Some 5, ac_material_cost_max = Some 15,
          ac_labor_unit_id = Some 1, ac_material_unit_id = None\<rparr>,
         \<lparr>ac_activity_id = 101, ac_price_book_id = 11, ac_severity_band_id = Some 1,
          ac_labor_unit_cost = None, ac_labor_cost_min = None, ac_labor_cost_max = None,
          ac_material_unit_cost = None, ac_material_cost_min = Some 7, ac_material_cost_max = None,
          ac_labor_unit_id = None, ac_material_unit_id = None\<rparr>],
      Damage_vActivityCostFull =
        [\<lparr>v_price_year = 2021, v_damage_type_code_en = ''UNKNOWN_GENERAL'',
          v_damage_type_code_nl = ''ONBEKEND_ALGEMEEN''\<rparr>,
         \<lparr>v_price_year = 2023, v_damage_type_code_en = ''UNKNOWN_GENERAL'',
          v_damage_type_code_nl = ''ONBEKEND_ALGEMEEN''\<rparr>]\<rparr>"

definition sample_args :: args where
  "sample_args = \<lparr>language = ''en'', damage_code = Some ''UNKNOWN_GENERAL'', description = None,
                   size = D 3, unit = ''m2'', price_year = None\<rparr>"

definition sample_env :: environment where
  "sample_env = \<lparr>OpenAI = False, OPENAI_API_KEY = None, openai_reply = ''''\<rparr>"

text \<open>
  Variants of the sample: a wide band around a narrow one, two bands with the same midpoint,
  and a store without cost rows.
\<close>

definition wide_store :: data_store where
  "wide_store = sample_store
     \<lparr>Damage_SeverityBand :=
        [\<lparr>sb_severity_band_id = 1, sb_damage_type_id = 1, sb_band_label = ''wide'',
          sb_range_min = D 0, sb_range_max = D 100, sb_unit_id = 1\<rparr>,
         \<lparr>sb_severity_band_id = 2, sb_damage_type_id = 1, sb_band_label = ''near'',
          sb_range_min = D 2, sb_range_max = D 3, sb_unit_id = 1\<rparr>]\<rparr>"

definition tie_store :: data_store where
  "tie_store = sample_store
     \<lparr>Damage_SeverityBand :=
        [\<lparr>sb_severity_band_id = 1, sb_damage_type_id = 1, sb_band_label = ''outer'',
          sb_range_min = D 0, sb_range_max = D 10, sb_unit_id = 1\<rparr>,
         \<lparr>sb_severity_band_id = 2, sb_damage_type_id = 1, sb_band_label = ''inner'',
          sb_range_min = D 2, sb_range_max = D 8, sb_unit_id = 1\<rparr>]\<rparr>"

definition no_cost_store :: data_store where
  "no_cost_store = sample_store \<lparr>Damage_ActivityCost := []\<rparr>"

text \<open>
  A store whose cost view is empty, and an environment in which the classifier is available
  and replies with the given text.
\<close>

definition no_year_store :: data_store where
  "no_year_store = sample_store \<lparr>Damage_vActivityCostFull := []\<rparr>"

text \<open>
  The sample under a case-insensitive collation, which compares the ASCII letters by their
  capitals.
\<close>

definition ascii_upper :: "char \<Rightarrow> char" where
  "ascii_upper c =
     (case map_of (zip ''abcdefghijklmnopqrstuvwxyz'' ''ABCDEFGHIJKLMNOPQRSTUVWXYZ'') c of
        None \<Rightarrow> c
      | Some C \<Rightarrow> C)"

definition ci_store :: data_store where
  "ci_store = sample_store \<lparr>Collation := ascii_upper\<rparr>"

text \<open>
  A store whose cost view has entries for 2021 and 2025, while the price books are those of
  2021 and 2023.
\<close>

definition orphan_year_store :: data_store where
  "orphan_year_store = sample_store
     \<lparr>Damage_vActivityCostFull :=
        [\<lparr>v_price_year = 2021, v_damage_type_code_en = ''UNKNOWN_GENERAL'',
          v_damage_type_code_nl = ''ONBEKEND_ALGEMEEN''\<rparr>,
         \<lparr>v_price_year = 2025, v_damage_type_code_en = ''UNKNOWN_GENERAL'',
          v_damage_type_code_nl = ''ONBEKEND_ALGEMEEN''\<rparr>]\<rparr>"

definition classifier_env :: "string \<Rightarrow> environment" where
  "classifier_env reply = \<lparr>OpenAI = True, OPENAI_API_KEY = Some ''sk-test'', openai_reply = reply\<rparr>"

text \<open>
  A store in which the activity 100 has two cost rows in the 2023 book: one for all bands and
  one for the band small.
\<close>

definition dup_store :: data_store where
  "dup_store = sample_store
     \<lparr>Damage_ActivityCost :=
        [\<lparr>ac_activity_id = 100, ac_price_book_id = 11, ac_severity_band_id = None,
          ac_labor_unit_cost = Some 10, ac_labor_cost_min = None, ac_labor_cost_max = None,
          ac_material_unit_cost = None, ac_material_cost_min = Some 5, ac_material_cost_max = Some 15,
          ac_labor_unit_id = Some 1, ac_material_unit_id = None\<rparr>,
         \<lparr>ac_activity_id = 100, ac_price_book_id = 11, ac_severity_band_id = Some 1,
          ac_labor_unit_cost = Some 12, ac_labor_cost_min = None, ac_labor_cost_max = None,
          ac_material_unit_cost = None, ac_material_cost_min = Some 6, ac_material_cost_max = Some 16,
          ac_labor_unit_id = Some 1, ac_material_unit_id = None\<rparr>]\<rparr>"

section \<open>Properties\<close>

subsection \<open>Cost lines and totals\<close>

lemma estimated_labor_row:
  "estimated_labor (estimate_row r s) =
     spec_estimate (labor_unit_cost r) (labor_cost_min r) (labor_cost_max r) s"
  by (simp add: estimate_row_def spec_estimate_def split: option.splits)

lemma estimated_material_row:
  "estimated_material (estimate_row r s) =
     spec_estimate (material_unit_cost r) (material_cost_min r) (material_cost_max r) s"
  by (simp add: estimate_row_def spec_estimate_def split: option.splits)

lemma estimate_costs_map: "estimate_costs rows s = map (\<lambda>r. estimate_row r s) rows"
  by (induction rows) simp_all

lemma py_sum_from: "foldl (+) a xs = a + sum_list xs" for a :: real
  by (induction xs arbitrary: a) simp_all

lemma py_sum_sum_list: "py_sum xs = sum_list xs"
  by (simp add: py_sum_def py_sum_from)

lemma main_success:
  assumes "main env db a = Inr rep"
  obtains dt code_used pb year sbid info sib where
    "fetch_damage_type_code env db (language a) (damage_code a) (description a) = Inr (dt, code_used)"
    "resolve_price_book_id db dt (language a) code_used (price_year a) = Inr (pb, year)"
    "pick_severity_band db dt (size a) (unit a) = Inr (sbid, info, sib)"
    "fetch_cost_rows db dt pb sbid (language a) \<noteq> []"
    "r_lines rep = estimate_costs (fetch_cost_rows db dt pb sbid (language a)) (valof sib)"
    "r_size_in_base rep = sib"
    "r_total_labor rep = py_sum (map (\<lambda>e. or0 (estimated_labor e)) (r_lines rep))"
    "r_total_material rep = py_sum (map (\<lambda>e. or0 (estimated_material e)) (r_lines rep))"
    "r_grand_total rep = r_total_labor rep + r_total_material rep"
  using assms unfolding main_def
  by (auto simp: Let_def split: sum.splits prod.splits if_splits)

lemma or0_case: "or0 x = (case x of None \<Rightarrow> 0 | Some v \<Rightarrow> v)"
  by (cases x) simp_all

text \<open>
  C5. For every cost row, the labor estimate and the material estimate each follow the fallback
  rule applied to the fields of their own category: unit cost times size, else the mean of
  minimum and maximum, else the minimum, else null. A labor unit cost of 10 at size 3 gives 30;
  a material range of 5 to 15 without unit cost gives 10; changing the fields of one category
  never changes the estimate of the other.
\<close>

theorem estimate_costs_per_category:
  "map estimated_labor (estimate_costs rows s) =
     map (\<lambda>r. spec_estimate (labor_unit_cost r) (labor_cost_min r) (labor_cost_max r) s) rows
   \<and> map estimated_material (estimate_costs rows s) =
     map (\<lambda>r. spec_estimate (material_unit_cost r) (material_cost_min r) (material_cost_max r) s) rows
   \<and> estimated_labor (estimate_row (r\<lparr>labor_unit_cost := Some 10\<rparr>) 3) = Some 30
   \<and> estimated_material (estimate_row
        (r\<lparr>material_unit_cost := None, material_cost_min := Some 5, material_cost_max := Some 15\<rparr>) 3)
       = Some 10
   \<and> estimated_labor (estimate_row
        (r\<lparr>material_unit_cost := mu, material_cost_min := mlo, material_cost_max := mhi\<rparr>) s)
       = estimated_labor (estimate_row r s)
   \<and> estimated_material (estimate_row
        (r\<lparr>labor_unit_cost := lu, labor_cost_min := llo, labor_cost_max := lhi\<rparr>) s)
       = estimated_material (estimate_row r s)"
  by (simp add: estimate_costs_map estimated_labor_row estimated_material_row spec_estimate_def)

subsection \<open>Evaluating doubles\<close>

lemma bits_numeral [simp]:
  "bits 0 = 0" "bits 1 = 1"
  "bits (numeral (Num.Bit0 k)) = 1 + bits (numeral k)"
  "bits (numeral (Num.Bit1 k)) = 1 + bits (numeral k)"
proof -
  show "bits 0 = 0" "bits 1 = 1" by (simp_all add: bits.simps)
  have "numeral (Num.Bit0 k) div (2::int) = numeral k" by simp
  then show "bits (numeral (Num.Bit0 k)) = 1 + bits (numeral k)"
    by (subst bits.simps) simp
  have "numeral (Num.Bit1 k) div (2::int) = numeral k" by simp
  then show "bits (numeral (Num.Bit1 k)) = 1 + bits (numeral k)"
    by (subst bits.simps) simp
qed

lemmas double_eval =
  D_def rnd_def rnd_to_def carry_def nearest_even_def finite_or_inf_def dsub_def

text \<open>The laws of the comparisons that the matcher relies on; they hold with NaN as well.\<close>

lemma dlt_irrefl: "\<not> dlt a a"
  by (cases a) simp_all

lemma dlt_trans: "dlt a b \<Longrightarrow> dlt b c \<Longrightarrow> dlt a c"
  by (cases a; cases b; cases c) simp_all

lemma dle_dlt_trans: "dle a b \<Longrightarrow> dlt b c \<Longrightarrow> dlt a c"
  by (cases a; cases b; cases c) simp_all

lemma not_dlt_dle: "a \<noteq> NaN \<Longrightarrow> b \<noteq> NaN \<Longrightarrow> \<not> dlt a b \<Longrightarrow> dle b a"
  by (cases a; cases b) simp_all

subsection \<open>The loop of the matcher\<close>

lemma band_loop_step:
  "band_loop (b # bands) s best best_score =
     (if (case best_score of None \<Rightarrow> True | Some v \<Rightarrow> dlt (band_score b s) v)
      then band_loop bands s (Some b) (Some (band_score b s))
      else band_loop bands s best best_score)"
  by (cases best_score) (simp_all add: Let_def band_score_def in_range_def midpoint_def)

lemma first_min_at_snoc_new:
  assumes "first_min_at pre s i" and "dlt (band_score b s) (band_score (pre ! i) s)"
  shows "first_min_at (pre @ [b]) s (length pre)"
  unfolding first_min_at_def
proof (intro conjI allI impI)
  show "length pre < length (pre @ [b])" by simp
next
  fix j assume "j < length (pre @ [b])"
  then consider "j < length pre" | "j = length pre" by fastforce
  then show "\<not> dlt (band_score ((pre @ [b]) ! j) s) (band_score ((pre @ [b]) ! length pre) s)"
  proof cases
    case 1
    with assms(1) have "\<not> dlt (band_score (pre ! j) s) (band_score (pre ! i) s)"
      by (simp add: first_min_at_def)
    with assms(2) have "\<not> dlt (band_score (pre ! j) s) (band_score b s)"
      using dlt_trans by blast
    with 1 show ?thesis by (simp add: nth_append)
  next
    case 2
    then show ?thesis by (simp add: dlt_irrefl)
  qed
next
  fix j assume j: "j < length pre"
  with assms(1) have "\<not> dlt (band_score (pre ! j) s) (band_score (pre ! i) s)"
    by (simp add: first_min_at_def)
  with assms(2) have "\<not> dle (band_score (pre ! j) s) (band_score b s)"
    using dle_dlt_trans by blast
  with j show "\<not> dle (band_score ((pre @ [b]) ! j) s) (band_score ((pre @ [b]) ! length pre) s)"
    by (simp add: nth_append)
qed

lemma first_min_at_snoc_keep:
  assumes "first_min_at pre s i" and "\<not> dlt (band_score b s) (band_score (pre ! i) s)"
  shows "first_min_at (pre @ [b]) s i"
proof -
  have i: "i < length pre" using assms(1) by (simp add: first_min_at_def)
  show ?thesis
    unfolding first_min_at_def
  proof (intro conjI allI impI)
    show "i < length (pre @ [b])" using i by simp
  next
    fix j assume "j < length (pre @ [b])"
    then consider "j < length pre" | "j = length pre" by fastforce
    then show "\<not> dlt (band_score ((pre @ [b]) ! j) s) (band_score ((pre @ [b]) ! i) s)"
    proof cases
      case 1
      with assms(1) i show ?thesis by (simp add: first_min_at_def nth_append)
    next
      case 2
      with assms(2) i show ?thesis by (simp add: nth_append)
    qed
  next
    fix j assume "j < i"
    with assms(1) i show "\<not> dle (band_score ((pre @ [b]) ! j) s) (band_score ((pre @ [b]) ! i) s)"
      by (simp add: first_min_at_def nth_append)
  qed
qed

lemma band_loop_from:
  "first_min_at pre s i \<Longrightarrow>
   \<exists>k. first_min_at (pre @ bands) s k \<and>
       band_loop bands s (Some (pre ! i)) (Some (band_score (pre ! i) s))
         = (Some ((pre @ bands) ! k), Some (band_score ((pre @ bands) ! k) s))"
proof (induction bands arbitrary: pre i)
  case Nil
  then show ?case by auto
next
  case (Cons b bands)
  have i: "i < length pre" using Cons.prems by (simp add: first_min_at_def)
  show ?case
  proof (cases "dlt (band_score b s) (band_score (pre ! i) s)")
    case True
    from Cons.IH [OF first_min_at_snoc_new [OF Cons.prems True]] True show ?thesis
      by (simp add: band_loop_step del: band_loop.simps)
  next
    case False
    from Cons.IH [OF first_min_at_snoc_keep [OF Cons.prems False]] False i show ?thesis
      by (simp add: band_loop_step nth_append del: band_loop.simps)
  qed
qed

lemma band_loop_first_min:
  assumes "bands \<noteq> []"
  shows "\<exists>k. first_min_at bands s k \<and> fst (band_loop bands s None None) = Some (bands ! k)"
proof -
  from assms obtain b rest where bands: "bands = b # rest" by (cases bands) auto
  have "first_min_at [b] s 0" by (simp add: first_min_at_def dlt_irrefl)
  from band_loop_from [OF this, of rest] show ?thesis
    by (auto simp: bands band_loop_step simp del: band_loop.simps)
qed

lemma pick_severity_band_first_min:
  assumes "select_unit db unit_symbol = u # us" and "select_bands db dt \<noteq> []"
  shows "\<exists>k. first_min_at (select_bands db dt) (dmul size_value (u_conversion_to_base u)) k \<and>
             pick_severity_band db dt size_value unit_symbol =
               Inr (severity_band_id (select_bands db dt ! k), info_of (select_bands db dt ! k),
                    dmul size_value (u_conversion_to_base u))"
proof -
  from band_loop_first_min [OF assms(2), of "dmul size_value (u_conversion_to_base u)"]
  obtain k where k: "first_min_at (select_bands db dt) (dmul size_value (u_conversion_to_base u)) k"
    and r: "fst (band_loop (select_bands db dt) (dmul size_value (u_conversion_to_base u)) None None)
              = Some (select_bands db dt ! k)"
    by blast
  have "pick_severity_band db dt size_value unit_symbol =
               Inr (severity_band_id (select_bands db dt ! k), info_of (select_bands db dt ! k),
                    dmul size_value (u_conversion_to_base u))"
    using assms r by (simp add: pick_severity_band_def Let_def info_of_def)
  with k show ?thesis by blast
qed

lemma first_min_at_minimal:
  assumes "first_min_at bands s k"
  shows "bands ! k \<in> set bands"
    and "\<forall>b \<in> set bands. \<not> dlt (band_score b s) (band_score (bands ! k) s)"
  using assms by (auto simp: first_min_at_def in_set_conv_nth)

lemma select_bands_conv:
  "b \<in> set (select_bands db dt) \<Longrightarrow>
     \<exists>sb \<in> set (Damage_SeverityBand db). \<exists>u \<in> set (Damage_Unit db).
        sb_damage_type_id sb = dt \<and> u_unit_id u = sb_unit_id sb \<and>
        severity_band_id b = sb_severity_band_id sb \<and>
        range_min b = sb_range_min sb \<and> range_max b = sb_range_max sb \<and>
        conv b = u_conversion_to_base u"
  by (fastforce simp: select_bands_def split: if_splits)

text \<open>Running the matcher on given rows: unfold the loop band by band.\<close>

lemmas band_eval =
  pick_severity_band_def Let_def band_loop_step band_score_def in_range_def midpoint_def
  double_eval

subsection \<open>The sample run\<close>

lemma sample_unit:
  "select_unit sample_store ''m2'' = [\<lparr>u_unit_id = 1, u_symbol = ''m2'', u_conversion_to_base = D 1\<rparr>]"
  by (simp add: select_unit_def sql_eq_def rtrim_def sample_store_def)

lemma sample_bands:
  "select_bands sample_store 1 =
     [\<lparr>severity_band_id = 1, band_label = ''small'', range_min = D 0, range_max = D 5,
       severity_unit = ''m2'', conv = D 1\<rparr>,
      \<lparr>severity_band_id = 2, band_label = ''large'', range_min = D 5, range_max = D 100,
       severity_unit = ''m2'', conv = D 1\<rparr>]"
  by (simp add: select_bands_def sample_store_def)

lemma sample_code:
  "fetch_damage_type_code env sample_store ''en'' (Some ''UNKNOWN_GENERAL'') d
     = Inr (1, ''UNKNOWN_GENERAL'')"
  by (simp add: fetch_damage_type_code_def select_damage_type_def sql_eq_def rtrim_def
      sample_store_def)

lemma sample_price_book:
  "resolve_price_book_id sample_store 1 ''en'' ''UNKNOWN_GENERAL'' None = Inr (11, 2023)"
  by (simp add: resolve_price_book_id_def select_years_def lookup_price_book_def
      select_price_book_def sql_eq_def rtrim_def sample_store_def)

lemma sample_band:
  "pick_severity_band sample_store 1 (D 3) ''m2'' =
     Inr (1, \<lparr>bi_severity_band_id = 1, bi_band_label = ''small'', bi_range_min = D 0,
              bi_range_max = D 5, bi_severity_unit = ''m2''\<rparr>, D 3)"
  by (simp add: band_eval sample_unit sample_bands del: band_loop.simps(2))

lemma valof_3: "valof (D 3) = 3"
  by (simp add: double_eval)

lemma sample_rows:
  "fetch_cost_rows sample_store 1 11 1 ''en'' =
     [\<lparr>activity_id = 100, activity_code = ''CLEAN'', activity_name = ''Cleaning'',
       sequence_order = 1, is_required = True,
       labor_unit_cost = Some 10, labor_cost_min = None, labor_cost_max = None,
       material_unit_cost = None, material_cost_min = Some 5, material_cost_max = Some 15,
       labor_unit = Some ''m2'', material_unit = None\<rparr>,
      \<lparr>activity_id = 101, activity_code = ''INSPECT'', activity_name = ''Inspection'',
       sequence_order = 2, is_required = False,
       labor_unit_cost = None, labor_cost_min = None, labor_cost_max = None,
       material_unit_cost = None, material_cost_min = Some 7, material_cost_max = None,
       labor_unit = None, material_unit = None\<rparr>]"
  by (simp add: fetch_cost_rows_def joined_cost_rows_def cost_row_of_def applicable_def
      left_join_unit_def sample_store_def)

lemma sample_main:
  "\<exists>rep. main env sample_store sample_args = Inr rep
         \<and> map estimated_labor (r_lines rep) = [Some 30, None]
         \<and> map estimated_material (r_lines rep) = [Some 10, Some 7]"
  by (simp add: main_def sample_args_def sample_code sample_price_book sample_band sample_rows
      valof_3 estimate_row_def Let_def)

lemma no_cost_stages:
  "fetch_damage_type_code env no_cost_store ''en'' (Some ''UNKNOWN_GENERAL'') d
     = Inr (1, ''UNKNOWN_GENERAL'')"
  "resolve_price_book_id no_cost_store 1 ''en'' ''UNKNOWN_GENERAL'' None = Inr (11, 2023)"
  "pick_severity_band no_cost_store 1 (D 3) ''m2'' =
     Inr (1, \<lparr>bi_severity_band_id = 1, bi_band_label = ''small'', bi_range_min = D 0,
              bi_range_max = D 5, bi_severity_unit = ''m2''\<rparr>, D 3)"
  "fetch_cost_rows no_cost_store 1 11 1 ''en'' = []"
proof -
  have u: "select_unit no_cost_store ''m2'' = select_unit sample_store ''m2''"
    by (simp add: select_unit_def sql_eq_def no_cost_store_def)
  have b: "select_bands no_cost_store 1 = select_bands sample_store 1"
    by (simp add: select_bands_def no_cost_store_def)
  show "fetch_damage_type_code env no_cost_store ''en'' (Some ''UNKNOWN_GENERAL'') d
     = Inr (1, ''UNKNOWN_GENERAL'')"
    by (simp add: fetch_damage_type_code_def select_damage_type_def sql_eq_def rtrim_def
        no_cost_store_def sample_store_def)
  show "resolve_price_book_id no_cost_store 1 ''en'' ''UNKNOWN_GENERAL'' None = Inr (11, 2023)"
    by (simp add: resolve_price_book_id_def select_years_def lookup_price_book_def
        select_price_book_def sql_eq_def rtrim_def no_cost_store_def sample_store_def)
  show "pick_severity_band no_cost_store 1 (D 3) ''m2'' =
     Inr (1, \<lparr>bi_severity_band_id = 1, bi_band_label = ''small'', bi_range_min = D 0,
              bi_range_max = D 5, bi_severity_unit = ''m2''\<rparr>, D 3)"
    unfolding pick_severity_band_def u b
    by (rule sample_band [unfolded pick_severity_band_def])
  show "fetch_cost_rows no_cost_store 1 11 1 ''en'' = []"
    by (simp add: fetch_cost_rows_def joined_cost_rows_def no_cost_store_def sample_store_def)
qed

subsection \<open>Totals\<close>

lemma sum_list_or0_map:
  "(\<Sum>e\<leftarrow>xs. case f e of None \<Rightarrow> 0 | Some v \<Rightarrow> v)
     = (\<Sum>x\<leftarrow>map f xs. case x of None \<Rightarrow> 0 | Some (v::real) \<Rightarrow> v)"
  by (induction xs) simp_all

text \<open>
  C6. For every successful run the report has at least one line; \<open>total_labor\<close> is the sum of
  the lines' labor estimates with null counted as zero, \<open>total_material\<close> likewise, and
  \<open>grand_total\<close> is exactly their sum. The lines of the report are the estimates as
  \<open>estimate_costs\<close> produced them, so a null estimate stays null in its line.
\<close>

theorem main_totals:
  assumes "main env db a = Inr rep"
  shows "r_lines rep \<noteq> []
    \<and> r_total_labor rep = (\<Sum>e\<leftarrow>r_lines rep. case estimated_labor e of None \<Rightarrow> 0 | Some v \<Rightarrow> v)
    \<and> r_total_material rep = (\<Sum>e\<leftarrow>r_lines rep. case estimated_material e of None \<Rightarrow> 0 | Some v \<Rightarrow> v)
    \<and> r_grand_total rep = r_total_labor rep + r_total_material rep
    \<and> (\<exists>dt pb sbid. r_lines rep =
          estimate_costs (fetch_cost_rows db dt pb sbid (language a))
            (valof (r_size_in_base rep)))"
proof -
  from assms obtain dt code_used pb year sbid info sib where
    rows: "fetch_cost_rows db dt pb sbid (language a) \<noteq> []"
    and lines: "r_lines rep = estimate_costs (fetch_cost_rows db dt pb sbid (language a)) (valof sib)"
    and sib: "r_size_in_base rep = sib"
    and tl: "r_total_labor rep = py_sum (map (\<lambda>e. or0 (estimated_labor e)) (r_lines rep))"
    and tm: "r_total_material rep = py_sum (map (\<lambda>e. or0 (estimated_material e)) (r_lines rep))"
    and gt: "r_grand_total rep = r_total_labor rep + r_total_material rep"
    by (rule main_success)
  have "r_lines rep \<noteq> []" using rows lines by (simp add: estimate_costs_map)
  moreover have "r_total_labor rep = (\<Sum>e\<leftarrow>r_lines rep. case estimated_labor e of None \<Rightarrow> 0 | Some v \<Rightarrow> v)"
    using tl by (simp add: py_sum_sum_list or0_case)
  moreover have "r_total_material rep = (\<Sum>e\<leftarrow>r_lines rep. case estimated_material e of None \<Rightarrow> 0 | Some v \<Rightarrow> v)"
    using tm by (simp add: py_sum_sum_list or0_case)
  moreover have "\<exists>dt pb sbid. r_lines rep =
          estimate_costs (fetch_cost_rows db dt pb sbid (language a))
            (valof (r_size_in_base rep))"
    using lines sib by blast
  ultimately show ?thesis using gt by blast
qed

theorem main_totals_witness:
  "\<exists>rep. main sample_env sample_store sample_args = Inr rep
     \<and> map estimated_labor (r_lines rep) = [Some 30, None]
     \<and> map estimated_material (r_lines rep) = [Some 10, Some 7]
     \<and> r_total_labor rep = 30 \<and> r_total_material rep = 17 \<and> r_grand_total rep = 47"
proof -
  from sample_main [of sample_env] obtain rep where
    m: "main sample_env sample_store sample_args = Inr rep"
    and l: "map estimated_labor (r_lines rep) = [Some 30, None]"
    and t: "map estimated_material (r_lines rep) = [Some 10, Some 7]"
    by (elim exE conjE)
  note tot = main_totals [OF m]
  have "r_total_labor rep
          = (\<Sum>x\<leftarrow>map estimated_labor (r_lines rep). case x of None \<Rightarrow> 0 | Some v \<Rightarrow> v)"
    using tot [THEN conjunct2, THEN conjunct1] by (simp only: sum_list_or0_map [symmetric])
  then have tl: "r_total_labor rep = 30" by (simp only: l) simp
  have "r_total_material rep
          = (\<Sum>x\<leftarrow>map estimated_material (r_lines rep). case x of None \<Rightarrow> 0 | Some v \<Rightarrow> v)"
    using tot [THEN conjunct2, THEN conjunct2, THEN conjunct1]
    by (simp only: sum_list_or0_map [symmetric])
  then have tm: "r_total_material rep = 17" by (simp only: t) simp
  have gt: "r_grand_total rep = 47"
    unfolding tot [THEN conjunct2, THEN conjunct2, THEN conjunct2, THEN conjunct1] tl tm by simp
  show ?thesis
    by (rule exI [of _ rep]) (simp only: m l t tl tm gt simp_thms)
qed

text \<open>
  C7. When the three resolution stages succeed and the cost query returns no row, the run fails
  with the \<open>ValueError\<close> "No costs found for the selected type/year/severity"; a successful
  run never has an empty list of lines.
\<close>

theorem main_no_costs:
  "(fetch_damage_type_code env db (language a) (damage_code a) (description a) = Inr (dt, code_used)
     \<and> resolve_price_book_id db dt (language a) code_used (price_year a) = Inr (pb, year)
     \<and> pick_severity_band db dt (size a) (unit a) = Inr (sbid, info, sib)
     \<and> fetch_cost_rows db dt pb sbid (language a) = []
     \<longrightarrow> main env db a = Inl (ValueError No_costs_found))
   \<and> (main env db a = Inr rep \<longrightarrow> r_lines rep \<noteq> [])"
proof (intro conjI impI)
  assume "fetch_damage_type_code env db (language a) (damage_code a) (description a) = Inr (dt, code_used)
     \<and> resolve_price_book_id db dt (language a) code_used (price_year a) = Inr (pb, year)
     \<and> pick_severity_band db dt (size a) (unit a) = Inr (sbid, info, sib)
     \<and> fetch_cost_rows db dt pb sbid (language a) = []"
  then show "main env db a = Inl (ValueError No_costs_found)"
    by (simp add: main_def)
next
  assume "main env db a = Inr rep"
  then obtain dt code_used pb year sbid info sib where
    "fetch_cost_rows db dt pb sbid (language a) \<noteq> []"
    "r_lines rep = estimate_costs (fetch_cost_rows db dt pb sbid (language a)) (valof sib)"
    by (rule main_success)
  then show "r_lines rep \<noteq> []" by (simp add: estimate_costs_map)
qed

theorem main_no_costs_witness:
  "main sample_env no_cost_store sample_args = Inl (ValueError No_costs_found)
   \<and> (\<exists>rep. main sample_env sample_store sample_args = Inr rep \<and> r_lines rep \<noteq> [])"
proof -
  have a: "language sample_args = ''en''" "damage_code sample_args = Some ''UNKNOWN_GENERAL''"
    "price_year sample_args = None" "size sample_args = D 3" "unit sample_args = ''m2''"
    by (simp_all add: sample_args_def)
  have first: "main sample_env no_cost_store sample_args = Inl (ValueError No_costs_found)"
    by (rule main_no_costs [THEN conjunct1, THEN mp, of _ _ _ 1 "''UNKNOWN_GENERAL''" 11 2023 1
          "\<lparr>bi_severity_band_id = 1, bi_band_label = ''small'', bi_range_min = D 0,
              bi_range_max = D 5, bi_severity_unit = ''m2''\<rparr>" "D 3"])
       (simp add: a no_cost_stages)
  from sample_main obtain rep where m: "main sample_env sample_store sample_args = Inr rep"
    by blast
  have "r_lines rep \<noteq> []"
    by (rule main_no_costs [THEN conjunct2, THEN mp, OF m])
  with m first show ?thesis by (intro conjI exI [of _ rep])
qed

subsection \<open>Severity band matching\<close>

lemma sample_size: "dmul (D 3) (D 1) = D 3" "dmul (D 5) (D 1) = D 5" "dmul (D 1) (D 1) = D 1"
  by (simp_all add: double_eval)

lemma sample_scores:
  "band_score (select_bands sample_store 1 ! 0) (D 3) = ddiv2 (D 1)"
  "band_score (select_bands sample_store 1 ! 1) (D 3) = ddiv2 (D 101)"
  by (simp_all add: sample_bands band_score_def in_range_def midpoint_def double_eval)

text \<open>
  C3. When the unit is known and the damage type has bands, every band is scored on its range
  converted with the conversion factor of the band's own unit (0 inside the range and 1
  outside, plus the distance between midpoint and size, in double precision), and the matcher
  returns a band of the damage type of minimal score: no band has a smaller score, and when
  no score is NaN the score of the returned band is at most that of every band.
\<close>

theorem pick_severity_band_minimal_score:
  assumes "select_unit db unit_symbol = u # us" and "select_bands db dt \<noteq> []"
  shows "(\<forall>b \<in> set (select_bands db dt).
            \<exists>sb \<in> set (Damage_SeverityBand db). \<exists>bu \<in> set (Damage_Unit db).
              sb_damage_type_id sb = dt \<and> u_unit_id bu = sb_unit_id sb \<and>
              severity_band_id b = sb_severity_band_id sb \<and>
              range_min b = sb_range_min sb \<and> range_max b = sb_range_max sb \<and>
              conv b = u_conversion_to_base bu)
       \<and> (\<exists>b \<in> set (select_bands db dt).
             pick_severity_band db dt size_value unit_symbol =
               Inr (severity_band_id b, info_of b, dmul size_value (u_conversion_to_base u))
             \<and> (\<forall>b' \<in> set (select_bands db dt).
                   \<not> dlt (band_score b' (dmul size_value (u_conversion_to_base u)))
                          (band_score b (dmul size_value (u_conversion_to_base u))))
             \<and> ((\<forall>b' \<in> set (select_bands db dt).
                     band_score b' (dmul size_value (u_conversion_to_base u)) \<noteq> NaN) \<longrightarrow>
                  (\<forall>b' \<in> set (select_bands db dt).
                     dle (band_score b (dmul size_value (u_conversion_to_base u)))
                         (band_score b' (dmul size_value (u_conversion_to_base u))))))"
proof (intro conjI ballI)
  fix b assume "b \<in> set (select_bands db dt)"
  then show "\<exists>sb \<in> set (Damage_SeverityBand db). \<exists>bu \<in> set (Damage_Unit db).
              sb_damage_type_id sb = dt \<and> u_unit_id bu = sb_unit_id sb \<and>
              severity_band_id b = sb_severity_band_id sb \<and>
              range_min b = sb_range_min sb \<and> range_max b = sb_range_max sb \<and>
              conv b = u_conversion_to_base bu"
    by (rule select_bands_conv)
next
  let ?s = "dmul size_value (u_conversion_to_base u)"
  let ?bands = "select_bands db dt"
  from pick_severity_band_first_min [OF assms] obtain k where
    k: "first_min_at ?bands ?s k"
    and r: "pick_severity_band db dt size_value unit_symbol =
               Inr (severity_band_id (?bands ! k), info_of (?bands ! k), ?s)"
    by blast
  from first_min_at_minimal [OF k]
  have c: "?bands ! k \<in> set ?bands"
    and m: "\<forall>b \<in> set ?bands. \<not> dlt (band_score b ?s) (band_score (?bands ! k) ?s)"
    by auto
  have "(\<forall>b' \<in> set ?bands. band_score b' ?s \<noteq> NaN) \<longrightarrow>
          (\<forall>b' \<in> set ?bands. dle (band_score (?bands ! k) ?s) (band_score b' ?s))"
    using c m not_dlt_dle by blast
  with c r m show "\<exists>b \<in> set ?bands.
             pick_severity_band db dt size_value unit_symbol =
               Inr (severity_band_id b, info_of b, ?s)
             \<and> (\<forall>b' \<in> set ?bands. \<not> dlt (band_score b' ?s) (band_score b ?s))
             \<and> ((\<forall>b' \<in> set ?bands. band_score b' ?s \<noteq> NaN) \<longrightarrow>
                  (\<forall>b' \<in> set ?bands. dle (band_score b ?s) (band_score b' ?s)))"
    by blast
qed

theorem pick_severity_band_minimal_score_witness:
  "select_unit sample_store ''m2'' \<noteq> [] \<and> select_bands sample_store 1 \<noteq> []
   \<and> band_score (select_bands sample_store 1 ! 0) (D 3) \<noteq> NaN
   \<and> band_score (select_bands sample_store 1 ! 1) (D 3) \<noteq> NaN
   \<and> (\<exists>b \<in> set (select_bands sample_store 1).
         pick_severity_band sample_store 1 (D 3) ''m2'' = Inr (severity_band_id b, info_of b, D 3)
         \<and> dle (band_score b (D 3)) (band_score (select_bands sample_store 1 ! 0) (D 3))
         \<and> dle (band_score b (D 3)) (band_score (select_bands sample_store 1 ! 1) (D 3)))"
proof -
  have n: "band_score (select_bands sample_store 1 ! 0) (D 3) \<noteq> NaN"
    "band_score (select_bands sample_store 1 ! 1) (D 3) \<noteq> NaN"
    unfolding sample_scores by (simp_all add: double_eval)
  have ne: "select_bands sample_store 1 \<noteq> []" by (simp add: sample_bands)
  have all: "\<forall>b' \<in> set (select_bands sample_store 1). band_score b' (D 3) \<noteq> NaN"
    using n by (simp add: sample_bands)
  from pick_severity_band_minimal_score [OF sample_unit ne, of "D 3", THEN conjunct2]
  obtain b where b: "b \<in> set (select_bands sample_store 1)"
    and r: "pick_severity_band sample_store 1 (D 3) ''m2'' = Inr (severity_band_id b, info_of b, D 3)"
    and le: "(\<forall>b' \<in> set (select_bands sample_store 1). band_score b' (D 3) \<noteq> NaN) \<longrightarrow>
               (\<forall>b' \<in> set (select_bands sample_store 1).
                  dle (band_score b (D 3)) (band_score b' (D 3)))"
    by (auto simp: sample_size)
  from le all have "\<forall>b' \<in> set (select_bands sample_store 1).
                  dle (band_score b (D 3)) (band_score b' (D 3))" by (rule mp)
  then have "dle (band_score b (D 3)) (band_score (select_bands sample_store 1 ! 0) (D 3))"
    "dle (band_score b (D 3)) (band_score (select_bands sample_store 1 ! 1) (D 3))"
    by (simp_all add: sample_bands)
  with b r n ne sample_unit show ?thesis by auto
qed

text \<open>
  C1, as amended. If some band contains the size and its score is smaller than the score of
  every band that does not contain the size (scores as the matcher computes them, in double
  precision), the matcher returns a band that contains the size.
\<close>

theorem pick_severity_band_in_range:
  assumes "select_unit db unit_symbol = u # us"
    and "b \<in> set (select_bands db dt)"
    and "in_range b (dmul size_value (u_conversion_to_base u))"
    and "\<forall>b' \<in> set (select_bands db dt).
           \<not> in_range b' (dmul size_value (u_conversion_to_base u)) \<longrightarrow>
           dlt (band_score b (dmul size_value (u_conversion_to_base u)))
               (band_score b' (dmul size_value (u_conversion_to_base u)))"
  shows "\<exists>c \<in> set (select_bands db dt).
           in_range c (dmul size_value (u_conversion_to_base u)) \<and>
           pick_severity_band db dt size_value unit_symbol =
             Inr (severity_band_id c, info_of c, dmul size_value (u_conversion_to_base u))"
proof -
  let ?s = "dmul size_value (u_conversion_to_base u)"
  from assms(2) have ne: "select_bands db dt \<noteq> []" by auto
  from pick_severity_band_first_min [OF assms(1) ne] obtain k where
    k: "first_min_at (select_bands db dt) ?s k"
    and r: "pick_severity_band db dt size_value unit_symbol =
               Inr (severity_band_id (select_bands db dt ! k), info_of (select_bands db dt ! k), ?s)"
    by blast
  let ?c = "select_bands db dt ! k"
  from first_min_at_minimal [OF k] assms(2)
  have c: "?c \<in> set (select_bands db dt)"
    and le: "\<not> dlt (band_score b ?s) (band_score ?c ?s)" by auto
  have "in_range ?c ?s"
  proof (rule ccontr)
    assume "\<not> in_range ?c ?s"
    with assms(4) c have "dlt (band_score b ?s) (band_score ?c ?s)" by blast
    with le show False by simp
  qed
  with c r show ?thesis by blast
qed

theorem pick_severity_band_in_range_witness:
  "in_range (select_bands sample_store 1 ! 0) (D 3)
   \<and> \<not> in_range (select_bands sample_store 1 ! 1) (D 3)
   \<and> dlt (band_score (select_bands sample_store 1 ! 0) (D 3))
          (band_score (select_bands sample_store 1 ! 1) (D 3))
   \<and> (\<exists>c \<in> set (select_bands sample_store 1). in_range c (D 3) \<and>
         pick_severity_band sample_store 1 (D 3) ''m2'' = Inr (severity_band_id c, info_of c, D 3))"
proof -
  have i: "in_range (select_bands sample_store 1 ! 0) (D 3)"
    "\<not> in_range (select_bands sample_store 1 ! 1) (D 3)"
    by (simp_all add: sample_bands in_range_def double_eval)
  have l: "dlt (band_score (select_bands sample_store 1 ! 0) (D 3))
          (band_score (select_bands sample_store 1 ! 1) (D 3))"
    unfolding sample_scores by (simp add: double_eval)
  have m: "select_bands sample_store 1 ! 0 \<in> set (select_bands sample_store 1)"
    by (simp add: sample_bands)
  have h: "\<forall>b' \<in> set (select_bands sample_store 1).
           \<not> in_range b' (dmul (D 3) (D 1)) \<longrightarrow>
           dlt (band_score (select_bands sample_store 1 ! 0) (dmul (D 3) (D 1)))
               (band_score b' (dmul (D 3) (D 1)))"
    unfolding sample_size using i l by (simp add: sample_bands)
  from pick_severity_band_in_range [OF sample_unit m, of "D 3"] i(1) h
  have "\<exists>c \<in> set (select_bands sample_store 1). in_range c (D 3) \<and>
         pick_severity_band sample_store 1 (D 3) ''m2'' = Inr (severity_band_id c, info_of c, D 3)"
    by (simp add: sample_size)
  with i l show ?thesis by (intro conjI)
qed

text \<open>
  C1, as stated, fails: with the bands wide (0 to 100) and near (2 to 3) and the size 1, the
  wide band contains the size and scores 49, the near band does not and scores 2.5, and the
  matcher returns the near band. All these values are exact in double precision.
\<close>

theorem in_range_band_not_preferred:
  "select_bands wide_store 1 =
     [\<lparr>severity_band_id = 1, band_label = ''wide'', range_min = D 0, range_max = D 100,
       severity_unit = ''m2'', conv = D 1\<rparr>,
      \<lparr>severity_band_id = 2, band_label = ''near'', range_min = D 2, range_max = D 3,
       severity_unit = ''m2'', conv = D 1\<rparr>]
   \<and> in_range (select_bands wide_store 1 ! 0) (D 1)
   \<and> band_score (select_bands wide_store 1 ! 0) (D 1) = D 49
   \<and> \<not> in_range (select_bands wide_store 1 ! 1) (D 1)
   \<and> band_score (select_bands wide_store 1 ! 1) (D 1) = ddiv2 (D 5)
   \<and> pick_severity_band wide_store 1 (D 1) ''m2'' =
       Inr (2, \<lparr>bi_severity_band_id = 2, bi_band_label = ''near'', bi_range_min = D 2,
                bi_range_max = D 3, bi_severity_unit = ''m2''\<rparr>, D 1)"
proof -
  have b: "select_bands wide_store 1 =
     [\<lparr>severity_band_id = 1, band_label = ''wide'', range_min = D 0, range_max = D 100,
       severity_unit = ''m2'', conv = D 1\<rparr>,
      \<lparr>severity_band_id = 2, band_label = ''near'', range_min = D 2, range_max = D 3,
       severity_unit = ''m2'', conv = D 1\<rparr>]"
    by (simp add: select_bands_def wide_store_def sample_store_def)
  have u: "select_unit wide_store ''m2'' =
      [\<lparr>u_unit_id = 1, u_symbol = ''m2'', u_conversion_to_base = D 1\<rparr>]"
    by (simp add: select_unit_def sql_eq_def rtrim_def wide_store_def sample_store_def)
  have i: "in_range (select_bands wide_store 1 ! 0) (D 1)"
    "\<not> in_range (select_bands wide_store 1 ! 1) (D 1)"
    by (simp_all add: b in_range_def double_eval)
  have s: "band_score (select_bands wide_store 1 ! 0) (D 1) = D 49"
    "band_score (select_bands wide_store 1 ! 1) (D 1) = ddiv2 (D 5)"
    by (simp_all add: b band_score_def in_range_def midpoint_def double_eval)
  have p: "pick_severity_band wide_store 1 (D 1) ''m2'' =
       Inr (2, \<lparr>bi_severity_band_id = 2, bi_band_label = ''near'', bi_range_min = D 2,
                bi_range_max = D 3, bi_severity_unit = ''m2''\<rparr>, D 1)"
    by (simp add: band_eval u b del: band_loop.simps(2))
  from b i s p show ?thesis by (intro conjI)
qed

text \<open>
  C4. The matcher returns the first band, in the order the data store returned them, among
  those of minimal score: no band scores less, and no band before it has a score that is
  equal or less. With the bands small (0 to 5) and large (5 to 100) stored in this order and
  the size 5, small is returned.
\<close>

theorem pick_severity_band_first_on_tie:
  assumes "select_unit db unit_symbol = u # us" and "select_bands db dt \<noteq> []"
  shows "(\<exists>k. first_min_at (select_bands db dt) (dmul size_value (u_conversion_to_base u)) k \<and>
             pick_severity_band db dt size_value unit_symbol =
               Inr (severity_band_id (select_bands db dt ! k), info_of (select_bands db dt ! k),
                    dmul size_value (u_conversion_to_base u)))
    \<and> map band_label (select_bands sample_store 1) = [''small'', ''large'']
    \<and> map (\<lambda>b. (dmul (range_min b) (conv b), dmul (range_max b) (conv b)))
          (select_bands sample_store 1) = [(D 0, D 5), (D 5, D 100)]
    \<and> pick_severity_band sample_store 1 (D 5) ''m2'' =
        Inr (1, \<lparr>bi_severity_band_id = 1, bi_band_label = ''small'', bi_range_min = D 0,
                 bi_range_max = D 5, bi_severity_unit = ''m2''\<rparr>, D 5)"
proof -
  have p: "pick_severity_band sample_store 1 (D 5) ''m2'' =
        Inr (1, \<lparr>bi_severity_band_id = 1, bi_band_label = ''small'', bi_range_min = D 0,
                 bi_range_max = D 5, bi_severity_unit = ''m2''\<rparr>, D 5)"
    by (simp add: band_eval sample_unit sample_bands del: band_loop.simps(2))
  have c: "map (\<lambda>b. (dmul (range_min b) (conv b), dmul (range_max b) (conv b)))
          (select_bands sample_store 1) = [(D 0, D 5), (D 5, D 100)]"
    by (simp add: sample_bands double_eval)
  have l: "map band_label (select_bands sample_store 1) = [''small'', ''large'']"
    by (simp add: sample_bands)
  from pick_severity_band_first_min [OF assms] p c l show ?thesis
    by (intro conjI)
qed

lemma tie_bands:
  "select_bands tie_store 1 =
     [\<lparr>severity_band_id = 1, band_label = ''outer'', range_min = D 0, range_max = D 10,
       severity_unit = ''m2'', conv = D 1\<rparr>,
      \<lparr>severity_band_id = 2, band_label = ''inner'', range_min = D 2, range_max = D 8,
       severity_unit = ''m2'', conv = D 1\<rparr>]"
  by (simp add: select_bands_def tie_store_def sample_store_def)

lemma tie_unit:
  "select_unit tie_store ''m2'' = [\<lparr>u_unit_id = 1, u_symbol = ''m2'', u_conversion_to_base = D 1\<rparr>]"
  by (simp add: select_unit_def sql_eq_def rtrim_def tie_store_def sample_store_def)

lemma tie_scores:
  "band_score (select_bands tie_store 1 ! 0) (D 5) = D 0"
  "band_score (select_bands tie_store 1 ! 1) (D 5) = D 0"
  by (simp_all add: tie_bands band_score_def in_range_def midpoint_def double_eval)

theorem pick_severity_band_first_on_tie_witness:
  "band_score (select_bands tie_store 1 ! 0) (D 5) = band_score (select_bands tie_store 1 ! 1) (D 5)
   \<and> pick_severity_band tie_store 1 (D 5) ''m2'' =
       Inr (1, \<lparr>bi_severity_band_id = 1, bi_band_label = ''outer'', bi_range_min = D 0,
                bi_range_max = D 10, bi_severity_unit = ''m2''\<rparr>, D 5)"
proof -
  have eq: "band_score (select_bands tie_store 1 ! 0) (D 5)
              = band_score (select_bands tie_store 1 ! 1) (D 5)"
    by (simp only: tie_scores)
  have refl: "dle (band_score (select_bands tie_store 1 ! 0) (D 5))
                  (band_score (select_bands tie_store 1 ! 1) (D 5))"
    unfolding tie_scores by (simp add: double_eval)
  have ne: "select_bands tie_store 1 \<noteq> []" by (simp add: tie_bands)
  from pick_severity_band_first_on_tie [OF tie_unit ne, of "D 5", THEN conjunct1]
  obtain k where
    k: "first_min_at (select_bands tie_store 1) (D 5) k"
    and r: "pick_severity_band tie_store 1 (D 5) ''m2'' =
       Inr (severity_band_id (select_bands tie_store 1 ! k), info_of (select_bands tie_store 1 ! k),
            D 5)"
    by (auto simp: sample_size)
  have "k = 0"
  proof (rule ccontr)
    assume "k \<noteq> 0"
    moreover from k have "k < 2" by (simp add: first_min_at_def tie_bands)
    ultimately have "k = 1" by simp
    with k have "\<not> dle (band_score (select_bands tie_store 1 ! 0) (D 5))
                       (band_score (select_bands tie_store 1 ! 1) (D 5))"
      by (simp add: first_min_at_def)
    with refl show False by simp
  qed
  with r have "pick_severity_band tie_store 1 (D 5) ''m2'' =
       Inr (1, \<lparr>bi_severity_band_id = 1, bi_band_label = ''outer'', bi_range_min = D 0,
                bi_range_max = D 10, bi_severity_unit = ''m2''\<rparr>, D 5)"
    by (simp add: tie_bands info_of_def)
  with eq show ?thesis by (intro conjI)
qed

subsection \<open>Price book selection\<close>

lemma sql_max_Max: "xs \<noteq> [] \<Longrightarrow> sql_max xs = Some (Max (set xs))"
proof (cases xs)
  case (Cons x rest)
  then show ?thesis by (simp only: sql_max.simps Max.set_eq_fold)
qed simp

lemma sample_years: "select_years sample_store ''en'' ''UNKNOWN_GENERAL'' = [2021, 2023]"
  by (simp add: select_years_def sql_eq_def rtrim_def sample_store_def)

lemma orphan_years: "select_years orphan_year_store ''en'' ''UNKNOWN_GENERAL'' = [2021, 2025]"
  by (simp add: select_years_def sql_eq_def rtrim_def orphan_year_store_def sample_store_def)

lemma orphan_books: "select_price_book orphan_year_store 2025 = []"
  by (simp add: select_price_book_def orphan_year_store_def sample_store_def)

text \<open>
  C8, as amended. Without an explicit year, the years considered are those of the cost view's
  rows whose damage type code in the run's language is the resolved code. When there is none
  the selector fails with the \<open>ValueError\<close> "No price book years found for the selected damage
  type". Otherwise it selects their maximum: it returns that year with the price book
  labelled with it when there is one, and fails with the \<open>ValueError\<close> "Price book for year
  ... not found" when there is none. With cost entries for 2021 and 2023 and a price book for
  2023 it returns 2023.
\<close>

theorem resolve_price_book_id_latest_year:
  "set (select_years db lang code) =
      v_price_year ` {v \<in> set (Damage_vActivityCostFull db).
         sql_eq db (if lang = ''en'' then v_damage_type_code_en v else v_damage_type_code_nl v)
           code}
   \<and> (select_years db lang code = [] \<longrightarrow>
        resolve_price_book_id db dt lang code None = Inl (ValueError No_price_book_years_found))
   \<and> (select_years db lang code \<noteq> [] \<and>
        select_price_book db (Max (set (select_years db lang code))) = pb # pbs \<longrightarrow>
        resolve_price_book_id db dt lang code None = Inr (pb, Max (set (select_years db lang code))))
   \<and> (select_years db lang code \<noteq> [] \<and>
        select_price_book db (Max (set (select_years db lang code))) = [] \<longrightarrow>
        resolve_price_book_id db dt lang code None =
          Inl (ValueError (Price_book_for_year_not_found (Max (set (select_years db lang code))))))
   \<and> select_years sample_store ''en'' ''UNKNOWN_GENERAL'' = [2021, 2023]
   \<and> resolve_price_book_id sample_store 1 ''en'' ''UNKNOWN_GENERAL'' None = Inr (11, 2023)"
proof (intro conjI impI)
  show "set (select_years db lang code) =
      v_price_year ` {v \<in> set (Damage_vActivityCostFull db).
         sql_eq db (if lang = ''en'' then v_damage_type_code_en v else v_damage_type_code_nl v)
           code}"
    by (auto simp: select_years_def)
next
  assume "select_years db lang code = []"
  then show "resolve_price_book_id db dt lang code None = Inl (ValueError No_price_book_years_found)"
    by (simp add: resolve_price_book_id_def)
next
  assume "select_years db lang code \<noteq> [] \<and>
        select_price_book db (Max (set (select_years db lang code))) = pb # pbs"
  then show "resolve_price_book_id db dt lang code None = Inr (pb, Max (set (select_years db lang code)))"
    by (simp add: resolve_price_book_id_def sql_max_Max lookup_price_book_def)
next
  assume "select_years db lang code \<noteq> [] \<and>
        select_price_book db (Max (set (select_years db lang code))) = []"
  then show "resolve_price_book_id db dt lang code None =
          Inl (ValueError (Price_book_for_year_not_found (Max (set (select_years db lang code)))))"
    by (simp add: resolve_price_book_id_def sql_max_Max lookup_price_book_def)
qed (rule sample_years sample_price_book)+

theorem resolve_price_book_id_latest_year_witness:
  "select_years no_year_store ''en'' ''UNKNOWN_GENERAL'' = []
   \<and> resolve_price_book_id no_year_store 1 ''en'' ''UNKNOWN_GENERAL'' None
        = Inl (ValueError No_price_book_years_found)
   \<and> select_years sample_store ''en'' ''UNKNOWN_GENERAL'' = [2021, 2023]
   \<and> select_price_book sample_store 2023 = [11]
   \<and> resolve_price_book_id sample_store 7 ''en'' ''UNKNOWN_GENERAL'' None = Inr (11, 2023)
   \<and> select_years orphan_year_store ''en'' ''UNKNOWN_GENERAL'' = [2021, 2025]
   \<and> select_price_book orphan_year_store 2025 = []
   \<and> resolve_price_book_id orphan_year_store 7 ''en'' ''UNKNOWN_GENERAL'' None
        = Inl (ValueError (Price_book_for_year_not_found 2025))"
proof -
  have e: "select_years no_year_store ''en'' ''UNKNOWN_GENERAL'' = []"
    by (simp add: select_years_def no_year_store_def sample_store_def)
  have b: "select_price_book sample_store 2023 = [11]"
    by (simp add: select_price_book_def sample_store_def)
  note t1 = resolve_price_book_id_latest_year
      [of no_year_store "''en''" "''UNKNOWN_GENERAL''" 1, THEN conjunct2, THEN conjunct1, THEN mp, OF e]
  have "select_years sample_store ''en'' ''UNKNOWN_GENERAL'' \<noteq> [] \<and>
        select_price_book sample_store (Max (set (select_years sample_store ''en'' ''UNKNOWN_GENERAL'')))
          = 11 # []"
    unfolding sample_years using b by simp
  from resolve_price_book_id_latest_year
      [of sample_store "''en''" "''UNKNOWN_GENERAL''" 7 11 "[]",
       THEN conjunct2, THEN conjunct2, THEN conjunct1, THEN mp, OF this]
  have t2: "resolve_price_book_id sample_store 7 ''en'' ''UNKNOWN_GENERAL'' None = Inr (11, 2023)"
    unfolding sample_years by simp
  have "select_years orphan_year_store ''en'' ''UNKNOWN_GENERAL'' \<noteq> [] \<and>
        select_price_book orphan_year_store
          (Max (set (select_years orphan_year_store ''en'' ''UNKNOWN_GENERAL''))) = []"
    unfolding orphan_years using orphan_books by simp
  from resolve_price_book_id_latest_year
      [of orphan_year_store "''en''" "''UNKNOWN_GENERAL''" 7,
       THEN conjunct2, THEN conjunct2, THEN conjunct2, THEN conjunct1, THEN mp, OF this]
  have t3: "resolve_price_book_id orphan_year_store 7 ''en'' ''UNKNOWN_GENERAL'' None
        = Inl (ValueError (Price_book_for_year_not_found 2025))"
    unfolding orphan_years by simp
  from e t1 sample_years b t2 orphan_years orphan_books t3 show ?thesis by (intro conjI)
qed

text \<open>
  C8, as stated, fails: with cost entries for 2021 and 2025 and price books for 2021 and 2023
  only, the maximum year is 2025 and the selector does not return it but fails.
\<close>

theorem latest_year_without_price_book:
  "select_years orphan_year_store ''en'' ''UNKNOWN_GENERAL'' = [2021, 2025]
   \<and> map pb_year_label (Damage_PriceBookVersion orphan_year_store) = [2021, 2023]
   \<and> resolve_price_book_id orphan_year_store 1 ''en'' ''UNKNOWN_GENERAL'' None
        = Inl (ValueError (Price_book_for_year_not_found 2025))"
  by (simp add: resolve_price_book_id_def lookup_price_book_def orphan_years orphan_books)
     (simp add: orphan_year_store_def sample_store_def)

subsection \<open>Damage type resolution\<close>

lemma explicit_code:
  "c \<noteq> [] \<Longrightarrow> fetch_damage_type_code env db lang (Some c) descr =
     (case select_damage_type db lang c of
        [] \<Rightarrow> Inl (ValueError (Damage_type_code_not_found c))
      | row # _ \<Rightarrow> Inr row)"
  by (simp add: fetch_damage_type_code_def Let_def)

lemma select_damage_type_Nil:
  "select_damage_type db lang c = [] \<longleftrightarrow>
     (\<forall>d \<in> set (Damage_DamageType db).
        \<not> sql_eq db (dt_code_en d) c \<and> \<not> sql_eq db (dt_code_nl d) c)"
  by (auto simp: select_damage_type_def)

lemma select_damage_type_hd:
  "select_damage_type db lang c = row # rows \<Longrightarrow>
     \<exists>d \<in> set (Damage_DamageType db).
        (sql_eq db (dt_code_en d) c \<or> sql_eq db (dt_code_nl d) c) \<and>
        row = (dt_damage_type_id d, if lang = ''en'' then dt_code_en d else dt_code_nl d)"
proof -
  assume "select_damage_type db lang c = row # rows"
  then have "row \<in> set (select_damage_type db lang c)" by simp
  then show ?thesis by (auto simp: select_damage_type_def split: if_splits)
qed

text \<open>
  C9, as amended. For a non-empty explicit code, with codes compared as the data store
  compares character data (trailing blanks ignored, characters by the collation): when no
  damage type has it as its English or Dutch code, resolution fails with the \<open>ValueError\<close>
  "Damage type code not found"; when some damage type has it, resolution returns such a
  damage type with its code in the run's language; and the result depends neither on the
  description nor on the classifier.
\<close>

theorem fetch_damage_type_code_explicit:
  assumes "c \<noteq> []"
  shows "((\<forall>d \<in> set (Damage_DamageType db).
             \<not> sql_eq db (dt_code_en d) c \<and> \<not> sql_eq db (dt_code_nl d) c) \<longrightarrow>
           fetch_damage_type_code env db lang (Some c) descr
             = Inl (ValueError (Damage_type_code_not_found c)))
       \<and> ((\<exists>d \<in> set (Damage_DamageType db).
              sql_eq db (dt_code_en d) c \<or> sql_eq db (dt_code_nl d) c) \<longrightarrow>
           (\<exists>d \<in> set (Damage_DamageType db).
              (sql_eq db (dt_code_en d) c \<or> sql_eq db (dt_code_nl d) c) \<and>
              fetch_damage_type_code env db lang (Some c) descr
                = Inr (dt_damage_type_id d, if lang = ''en'' then dt_code_en d else dt_code_nl d)))
       \<and> fetch_damage_type_code env db lang (Some c) descr
           = fetch_damage_type_code env' db lang (Some c) descr'"
proof (intro conjI impI)
  assume "\<forall>d \<in> set (Damage_DamageType db).
             \<not> sql_eq db (dt_code_en d) c \<and> \<not> sql_eq db (dt_code_nl d) c"
  then have "select_damage_type db lang c = []" by (simp add: select_damage_type_Nil)
  then show "fetch_damage_type_code env db lang (Some c) descr
             = Inl (ValueError (Damage_type_code_not_found c))"
    using assms by (simp add: explicit_code)
next
  assume "\<exists>d \<in> set (Damage_DamageType db).
              sql_eq db (dt_code_en d) c \<or> sql_eq db (dt_code_nl d) c"
  then have "select_damage_type db lang c \<noteq> []" by (simp add: select_damage_type_Nil)
  then obtain row rows where r: "select_damage_type db lang c = row # rows"
    by (cases "select_damage_type db lang c") auto
  from select_damage_type_hd [OF r] obtain d where
    "d \<in> set (Damage_DamageType db)"
    "sql_eq db (dt_code_en d) c \<or> sql_eq db (dt_code_nl d) c"
    "row = (dt_damage_type_id d, if lang = ''en'' then dt_code_en d else dt_code_nl d)"
    by blast
  moreover have "fetch_damage_type_code env db lang (Some c) descr = Inr row"
    using assms r by (simp add: explicit_code)
  ultimately show "\<exists>d \<in> set (Damage_DamageType db).
              (sql_eq db (dt_code_en d) c \<or> sql_eq db (dt_code_nl d) c) \<and>
              fetch_damage_type_code env db lang (Some c) descr
                = Inr (dt_damage_type_id d, if lang = ''en'' then dt_code_en d else dt_code_nl d)"
    by blast
next
  show "fetch_damage_type_code env db lang (Some c) descr
           = fetch_damage_type_code env' db lang (Some c) descr'"
    using assms by (simp add: explicit_code)
qed

lemma sample_types:
  "Damage_DamageType sample_store =
     [\<lparr>dt_damage_type_id = 1, dt_code_en = ''UNKNOWN_GENERAL'', dt_code_nl = ''ONBEKEND_ALGEMEEN''\<rparr>]"
  by (simp add: sample_store_def)

lemma sample_sql_eq: "sql_eq sample_store a b = (rtrim a = rtrim b)"
  by (simp add: sql_eq_def sample_store_def)

theorem fetch_damage_type_code_explicit_witness:
  "fetch_damage_type_code sample_env sample_store ''nl'' (Some ''UNKNOWN_GENERAL'') None
     = Inr (1, ''ONBEKEND_ALGEMEEN'')
   \<and> fetch_damage_type_code (classifier_env ''UNKNOWN_GENERAL'') sample_store ''en''
        (Some ''unknown_general'') (Some ''water damage'')
     = Inl (ValueError (Damage_type_code_not_found ''unknown_general''))"
proof -
  have ne: "''UNKNOWN_GENERAL'' \<noteq> []" "''unknown_general'' \<noteq> []" by simp_all
  from fetch_damage_type_code_explicit [OF ne(1), of sample_store sample_env "''nl''" None,
      THEN conjunct2, THEN conjunct1]
  have a: "fetch_damage_type_code sample_env sample_store ''nl'' (Some ''UNKNOWN_GENERAL'') None
     = Inr (1, ''ONBEKEND_ALGEMEEN'')"
    by (simp add: sample_types sample_sql_eq rtrim_def)
  from fetch_damage_type_code_explicit [OF ne(2), of sample_store
      "classifier_env ''UNKNOWN_GENERAL''" "''en''" "Some ''water damage''", THEN conjunct1]
  have b: "fetch_damage_type_code (classifier_env ''UNKNOWN_GENERAL'') sample_store ''en''
        (Some ''unknown_general'') (Some ''water damage'')
     = Inl (ValueError (Damage_type_code_not_found ''unknown_general''))"
    by (simp add: sample_types sample_sql_eq rtrim_def)
  from a b show ?thesis by simp
qed

text \<open>
  C9, as stated, fails in three ways. A code with a trailing blank equals no stored code as a
  string, yet it resolves. Under a case-insensitive collation a code in small letters
  resolves to the damage type stored in capitals. And the empty code is supplied, no damage
  type has it as a code, and the description is classified instead of the lookup failing.
\<close>

theorem explicit_code_not_exact:
  "Damage_DamageType sample_store =
     [\<lparr>dt_damage_type_id = 1, dt_code_en = ''UNKNOWN_GENERAL'', dt_code_nl = ''ONBEKEND_ALGEMEEN''\<rparr>]
   \<and> fetch_damage_type_code sample_env sample_store ''en'' (Some ''UNKNOWN_GENERAL '') None
       = Inr (1, ''UNKNOWN_GENERAL'')
   \<and> Damage_DamageType ci_store = Damage_DamageType sample_store
   \<and> fetch_damage_type_code sample_env ci_store ''en'' (Some ''unknown_general'') None
       = Inr (1, ''UNKNOWN_GENERAL'')
   \<and> select_damage_type sample_store ''en'' '''' = []
   \<and> fetch_damage_type_code (classifier_env ''UNKNOWN_GENERAL'') sample_store ''en''
        (Some '''') (Some ''water damage'') = Inr (1, ''UNKNOWN_GENERAL'')"
proof -
  have a: "fetch_damage_type_code sample_env sample_store ''en'' (Some ''UNKNOWN_GENERAL '') None
       = Inr (1, ''UNKNOWN_GENERAL'')"
    by (simp add: fetch_damage_type_code_def select_damage_type_def sample_types sample_sql_eq
        rtrim_def)
  have t: "Damage_DamageType ci_store = Damage_DamageType sample_store"
    by (simp add: ci_store_def)
  have q: "sql_eq ci_store x y = (map ascii_upper (rtrim x) = map ascii_upper (rtrim y))" for x y
    by (simp add: sql_eq_def ci_store_def)
  have b: "fetch_damage_type_code sample_env ci_store ''en'' (Some ''unknown_general'') None
       = Inr (1, ''UNKNOWN_GENERAL'')"
    by (simp add: fetch_damage_type_code_def select_damage_type_def t sample_types q rtrim_def
        ascii_upper_def)
  have c: "select_damage_type sample_store ''en'' '''' = []"
    by (simp add: select_damage_type_def sample_types sample_sql_eq rtrim_def)
  have d: "fetch_damage_type_code (classifier_env ''UNKNOWN_GENERAL'') sample_store ''en''
        (Some '''') (Some ''water damage'') = Inr (1, ''UNKNOWN_GENERAL'')"
    by (simp add: fetch_damage_type_code_def select_damage_type_def sample_types sample_sql_eq
        rtrim_def classifier_env_def strip_def split_def isspace_def)
  from sample_types a t b c d show ?thesis by (intro conjI)
qed

subsection \<open>The classifier's reply\<close>

lemma split_scan_token:
  "\<forall>c \<in> set a. \<not> isspace c \<Longrightarrow> split_scan cur (a @ rest) = split_scan (rev a @ cur) rest"
  by (induction a arbitrary: cur) simp_all

lemma split_scan_flush:
  "cur \<noteq> [] \<Longrightarrow> rest = [] \<or> isspace (hd rest) \<Longrightarrow> \<exists>ts. split_scan cur rest = rev cur # ts"
  by (cases rest) auto

lemma split_first_token:
  assumes "t \<noteq> []" and "\<not> isspace (hd t)"
  shows "\<exists>ts. split t = takeWhile (\<lambda>c. \<not> isspace c) t # ts"
proof -
  let ?tok = "takeWhile (\<lambda>c. \<not> isspace c) t"
  let ?rest = "dropWhile (\<lambda>c. \<not> isspace c) t"
  have tok: "?tok \<noteq> []" using assms by (cases t) auto
  have "split t = split_scan [] (?tok @ ?rest)" by (simp add: split_def)
  also have "\<dots> = split_scan (rev ?tok) ?rest"
    using split_scan_token [of ?tok "[]" ?rest] by (auto dest: set_takeWhileD)
  finally have s: "split t = split_scan (rev ?tok) ?rest" .
  have "?rest = [] \<or> isspace (hd ?rest)"
    using hd_dropWhile [of "\<lambda>c. \<not> isspace c" t] by auto
  from split_scan_flush [OF _ this, of "rev ?tok"] tok s show ?thesis by auto
qed

lemma strip_whitespace:
  assumes "\<forall>c \<in> set s. isspace c"
  shows "strip s = []"
proof -
  from assms have d: "dropWhile isspace s = []" by simp
  show ?thesis unfolding strip_def d by simp
qed

lemma strip_decompose:
  "\<exists>w. dropWhile isspace s = strip s @ w \<and> (\<forall>c \<in> set w. isspace c)"
proof -
  let ?u = "dropWhile isspace s"
  have "rev (takeWhile isspace (rev ?u) @ dropWhile isspace (rev ?u)) = rev (rev ?u)"
    by (simp only: takeWhile_dropWhile_id)
  then have "rev (dropWhile isspace (rev ?u)) @ rev (takeWhile isspace (rev ?u)) = ?u"
    by (simp only: rev_append rev_rev_ident)
  then have "?u = strip s @ rev (takeWhile isspace (rev ?u))"
    by (simp only: strip_def)
  moreover have "\<forall>c \<in> set (rev (takeWhile isspace (rev ?u))). isspace c"
    by (auto dest: set_takeWhileD)
  ultimately show ?thesis by blast
qed

lemma takeWhile_nonspace_append:
  assumes "\<forall>c \<in> set w. isspace c"
  shows "takeWhile (\<lambda>c. \<not> isspace c) (t @ w) = takeWhile (\<lambda>c. \<not> isspace c) t"
proof -
  have "takeWhile (\<lambda>c. \<not> isspace c) w = []" using assms by (cases w) auto
  then show ?thesis by (induction t) simp_all
qed

lemma split_strip_first_token:
  assumes "\<exists>c \<in> set s. \<not> isspace c"
  shows "\<exists>ts. split (strip s) = first_token s # ts"
proof -
  let ?u = "dropWhile isspace s"
  from assms have u: "?u \<noteq> []" by (simp add: dropWhile_eq_Nil_conv)
  then have hu: "\<not> isspace (hd ?u)" by (rule hd_dropWhile)
  from strip_decompose [of s] obtain w where
    d: "?u = strip s @ w" and w: "\<forall>c \<in> set w. isspace c" by blast
  have ne: "strip s \<noteq> []"
  proof
    assume "strip s = []"
    with d have "?u = w" by simp
    with u hu w show False by (cases w) auto
  qed
  then have "hd (strip s) = hd ?u" using d by (metis hd_append2)
  with hu have hs: "\<not> isspace (hd (strip s))" by simp
  have "takeWhile (\<lambda>c. \<not> isspace c) (strip s) = first_token s"
    unfolding first_token_def d using takeWhile_nonspace_append [OF w] by simp
  with split_first_token [OF ne hs] show ?thesis by simp
qed

lemma classified:
  assumes "\<not> truthy dcode" "truthy descr" "OpenAI env" "truthy (OPENAI_API_KEY env)"
  shows "fetch_damage_type_code env db lang dcode descr =
     (case split (strip (openai_reply env)) of
        [] \<Rightarrow> Inl IndexError
      | code_guess # _ \<Rightarrow>
          (case select_damage_type db lang code_guess of
             [] \<Rightarrow> Inl (ValueError (Model_returned_an_unknown_code code_guess))
           | row # _ \<Rightarrow> Inr row))"
proof (cases dcode)
  case None
  with assms show ?thesis by (simp add: fetch_damage_type_code_def)
next
  case (Some c)
  with assms show ?thesis by (simp add: fetch_damage_type_code_def)
qed

text \<open>
  C10. On the free-text path (no usable damage code, a description, the classifier installed
  and configured): a reply that is empty or all whitespace raises \<open>IndexError\<close>, so the
  unknown-code \<open>ValueError\<close> is not reached; any other reply is resolved through its first
  whitespace-delimited token alone.
\<close>

theorem fetch_damage_type_code_reply_token:
  assumes "\<not> truthy dcode" "truthy descr" "OpenAI env" "truthy (OPENAI_API_KEY env)"
  shows "((\<forall>c \<in> set (openai_reply env). isspace c) \<longrightarrow>
            fetch_damage_type_code env db lang dcode descr = Inl IndexError)
       \<and> ((\<exists>c \<in> set (openai_reply env). \<not> isspace c) \<longrightarrow>
            fetch_damage_type_code env db lang dcode descr =
              (case select_damage_type db lang (first_token (openai_reply env)) of
                 [] \<Rightarrow> Inl (ValueError (Model_returned_an_unknown_code (first_token (openai_reply env))))
               | row # _ \<Rightarrow> Inr row))"
proof (intro conjI impI)
  assume "\<forall>c \<in> set (openai_reply env). isspace c"
  then have "split (strip (openai_reply env)) = []"
    by (simp add: strip_whitespace split_def)
  then show "fetch_damage_type_code env db lang dcode descr = Inl IndexError"
    by (simp add: classified [OF assms])
next
  assume "\<exists>c \<in> set (openai_reply env). \<not> isspace c"
  from split_strip_first_token [OF this] obtain ts where
    "split (strip (openai_reply env)) = first_token (openai_reply env) # ts" by blast
  then show "fetch_damage_type_code env db lang dcode descr =
              (case select_damage_type db lang (first_token (openai_reply env)) of
                 [] \<Rightarrow> Inl (ValueError (Model_returned_an_unknown_code (first_token (openai_reply env))))
               | row # _ \<Rightarrow> Inr row)"
    by (simp add: classified [OF assms])
qed

lemma isspace_samples:
  "isspace CHR '' ''" "isspace (CHR 0x0A)" "isspace (CHR 0x09)"
  "\<not> isspace CHR ''U''" "\<not> isspace CHR ''x''"
  by (simp_all add: isspace_def)

theorem fetch_damage_type_code_reply_token_witness:
  "fetch_damage_type_code (classifier_env [CHR '' '', CHR 0x0A, CHR 0x09]) sample_store ''en''
      None (Some ''water damage'') = Inl IndexError
   \<and> fetch_damage_type_code (classifier_env '''') sample_store ''en''
      (Some '''') (Some ''water damage'') = Inl IndexError
   \<and> first_token '' UNKNOWN_GENERAL x'' = ''UNKNOWN_GENERAL''
   \<and> fetch_damage_type_code (classifier_env '' UNKNOWN_GENERAL x'') sample_store ''en''
      None (Some ''water damage'') = Inr (1, ''UNKNOWN_GENERAL'')
   \<and> first_token ''x UNKNOWN_GENERAL'' = ''x''
   \<and> fetch_damage_type_code (classifier_env ''x UNKNOWN_GENERAL'') sample_store ''en''
      None (Some ''water damage'') = Inl (ValueError (Model_returned_an_unknown_code ''x''))"
proof -
  have env: "OpenAI (classifier_env r)" "truthy (OPENAI_API_KEY (classifier_env r))"
    "openai_reply (classifier_env r) = r" for r
    by (simp_all add: classifier_env_def)
  have pre: "\<not> truthy None" "\<not> truthy (Some '''')" "truthy (Some ''water damage'')" by simp_all
  have t1: "first_token '' UNKNOWN_GENERAL x'' = ''UNKNOWN_GENERAL''"
    by (simp add: first_token_def isspace_def)
  have t2: "first_token ''x UNKNOWN_GENERAL'' = ''x''"
    by (simp add: first_token_def isspace_def)
  have q1: "select_damage_type sample_store ''en'' ''UNKNOWN_GENERAL'' = [(1, ''UNKNOWN_GENERAL'')]"
    by (simp add: select_damage_type_def sample_types sample_sql_eq rtrim_def)
  have q2: "select_damage_type sample_store ''en'' ''x'' = []"
    by (simp add: select_damage_type_def sample_types sample_sql_eq rtrim_def)
  have a: "fetch_damage_type_code (classifier_env [CHR '' '', CHR 0x0A, CHR 0x09]) sample_store ''en''
      None (Some ''water damage'') = Inl IndexError"
    using fetch_damage_type_code_reply_token [OF pre(1) pre(3) env(1) env(2),
        of "[CHR '' '', CHR 0x0A, CHR 0x09]" sample_store "''en''", THEN conjunct1]
    by (simp add: env isspace_samples)
  have b: "fetch_damage_type_code (classifier_env '''') sample_store ''en''
      (Some '''') (Some ''water damage'') = Inl IndexError"
    using fetch_damage_type_code_reply_token [OF pre(2) pre(3) env(1) env(2),
        of "''''" sample_store "''en''", THEN conjunct1]
    by (simp add: env)
  have c: "fetch_damage_type_code (classifier_env '' UNKNOWN_GENERAL x'') sample_store ''en''
      None (Some ''water damage'') = Inr (1, ''UNKNOWN_GENERAL'')"
    using fetch_damage_type_code_reply_token [OF pre(1) pre(3) env(1) env(2),
        of "'' UNKNOWN_GENERAL x''" sample_store "''en''", THEN conjunct2]
    by (simp add: env t1 q1 isspace_samples)
  have d: "fetch_damage_type_code (classifier_env ''x UNKNOWN_GENERAL'') sample_store ''en''
      None (Some ''water damage'') = Inl (ValueError (Model_returned_an_unknown_code ''x''))"
    using fetch_damage_type_code_reply_token [OF pre(1) pre(3) env(1) env(2),
        of "''x UNKNOWN_GENERAL''" sample_store "''en''", THEN conjunct2]
    by (simp add: env t2 q2 isspace_samples)
  from a b t1 c t2 d show ?thesis by (intro conjI)
qed

subsection \<open>Cost rows per activity\<close>

lemma length_filter_concat_map:
  "length (filter Q (concat (map g xs))) = (\<Sum>x\<leftarrow>xs. length (filter Q (g x)))"
  by (induction xs) simp_all

lemma sum_list_indicator:
  "(\<Sum>x\<leftarrow>xs. if P x then c else 0) = c * length (filter P xs)" for c :: nat
  by (induction xs) simp_all

lemma distinct_key_count:
  "distinct (map key xs) \<Longrightarrow>
     length (filter (\<lambda>x. key x = k) xs) = (if k \<in> key ` set xs then 1 else 0)"
  by (induction xs) (auto simp: image_iff)

lemma concat_map_if_singleton:
  "concat (map (\<lambda>x. if P x then [f x] else []) xs) = map f (filter P xs)"
  by (induction xs) simp_all

lemma left_join_unit_alt:
  "left_join_unit db uid =
     (case map u_symbol (filter (\<lambda>u. Some (u_unit_id u) = uid) (Damage_Unit db)) of
        [] \<Rightarrow> [None]
      | syms \<Rightarrow> map Some syms)"
  by (simp only: left_join_unit_def concat_map_if_singleton)

lemma left_join_unit_single:
  assumes "distinct (map u_unit_id (Damage_Unit db))"
  shows "\<exists>x. left_join_unit db uid = [x]"
proof (cases uid)
  case None
  then show ?thesis by (simp add: left_join_unit_alt)
next
  case (Some i)
  let ?us = "filter (\<lambda>u. u_unit_id u = i) (Damage_Unit db)"
  from distinct_key_count [OF assms, of i] have "length ?us \<le> 1" by simp
  then have "?us = [] \<or> (\<exists>u. ?us = [u])"
    by (cases ?us) (auto simp: length_Suc_conv)
  then show ?thesis
    by (auto simp: left_join_unit_alt Some)
qed

lemma activity_id_cost_row_of [simp]:
  "activity_id (cost_row_of lang dta a ac ul um) = a_activity_id a"
  by (simp add: cost_row_of_def)

lemma unit_layer_count:
  assumes "distinct (map u_unit_id (Damage_Unit db))"
  shows "length (filter (\<lambda>r. activity_id r = aid)
           (concat (map (\<lambda>ul. map (\<lambda>um. cost_row_of lang dta a ac ul um) (left_join_unit db m))
              (left_join_unit db l))))
         = (if a_activity_id a = aid then 1 else 0)"
proof -
  from left_join_unit_single [OF assms] obtain x y where
    "left_join_unit db l = [x]" "left_join_unit db m = [y]" by metis
  then show ?thesis by simp
qed

lemma length_filter_concat_map_if:
  "length (filter Q (concat (map (\<lambda>x. if P x then g x else []) xs)))
     = (\<Sum>x\<leftarrow>xs. if P x then length (filter Q (g x)) else 0)"
  by (induction xs) simp_all

lemma count_layer:
  "(\<And>x. length (filter Q (g x)) = c x) \<Longrightarrow>
   length (filter Q (concat (map (\<lambda>x. if P x then g x else []) xs)))
     = (\<Sum>x\<leftarrow>xs. if P x then c x else 0)"
  by (induction xs) simp_all

lemma sum_list_if_filter:
  "(\<Sum>x\<leftarrow>xs. if P x then f x else 0) = (\<Sum>x\<leftarrow>filter P xs. f x)" for f :: "'a \<Rightarrow> nat"
  by (induction xs) simp_all

lemma cost_layer_count:
  assumes "distinct (map u_unit_id (Damage_Unit db))"
  shows "length (filter (\<lambda>r. activity_id r = aid)
           (concat (map (\<lambda>ac. if applicable (a_activity_id a) pb sbid ac
              then concat (map (\<lambda>ul. map (cost_row_of lang dta a ac ul)
                                  (left_join_unit db (ac_material_unit_id ac)))
                     (left_join_unit db (ac_labor_unit_id ac)))
              else []) (Damage_ActivityCost db))))
         = (if a_activity_id a = aid
            then length (filter (applicable aid pb sbid) (Damage_ActivityCost db)) else 0)"
proof -
  have "length (filter (\<lambda>r. activity_id r = aid)
           (concat (map (\<lambda>ac. if applicable (a_activity_id a) pb sbid ac
              then concat (map (\<lambda>ul. map (cost_row_of lang dta a ac ul)
                                  (left_join_unit db (ac_material_unit_id ac)))
                     (left_join_unit db (ac_labor_unit_id ac)))
              else []) (Damage_ActivityCost db))))
       = (\<Sum>ac\<leftarrow>Damage_ActivityCost db.
            if applicable (a_activity_id a) pb sbid ac
            then (if a_activity_id a = aid then 1 else 0) else 0)"
    by (rule count_layer, rule unit_layer_count [OF assms])
  also have "\<dots> = (if a_activity_id a = aid then 1 else 0)
       * length (filter (applicable (a_activity_id a) pb sbid) (Damage_ActivityCost db))"
    by (rule sum_list_indicator)
  finally show ?thesis by simp
qed

lemma activity_layer_count:
  assumes "distinct (map a_activity_id (Damage_Activity db))"
    and "distinct (map u_unit_id (Damage_Unit db))"
  shows "length (filter (\<lambda>r. activity_id r = aid)
           (concat (map (\<lambda>a. if a_activity_id a = dta_activity_id dta
              then concat (map (\<lambda>ac. if applicable (a_activity_id a) pb sbid ac
                 then concat (map (\<lambda>ul. map (cost_row_of lang dta a ac ul)
                                     (left_join_unit db (ac_material_unit_id ac)))
                        (left_join_unit db (ac_labor_unit_id ac)))
                 else []) (Damage_ActivityCost db))
              else []) (Damage_Activity db))))
         = (if dta_activity_id dta = aid
            then (if aid \<in> a_activity_id ` set (Damage_Activity db)
                  then length (filter (applicable aid pb sbid) (Damage_ActivityCost db)) else 0)
            else 0)"
proof -
  let ?N = "length (filter (applicable aid pb sbid) (Damage_ActivityCost db))"
  let ?j = "dta_activity_id dta"
  have "length (filter (\<lambda>r. activity_id r = aid)
           (concat (map (\<lambda>a. if a_activity_id a = ?j
              then concat (map (\<lambda>ac. if applicable (a_activity_id a) pb sbid ac
                 then concat (map (\<lambda>ul. map (cost_row_of lang dta a ac ul)
                                     (left_join_unit db (ac_material_unit_id ac)))
                        (left_join_unit db (ac_labor_unit_id ac)))
                 else []) (Damage_ActivityCost db))
              else []) (Damage_Activity db))))
       = (\<Sum>a\<leftarrow>Damage_Activity db.
            if a_activity_id a = ?j then (if a_activity_id a = aid then ?N else 0) else 0)"
    by (rule count_layer, rule cost_layer_count [OF assms(2)])
  also have "\<dots> = (\<Sum>a\<leftarrow>Damage_Activity db.
            if a_activity_id a = ?j then (if ?j = aid then ?N else 0) else 0)"
    by (rule arg_cong [where f = sum_list], rule map_cong) auto
  also have "\<dots> = (if ?j = aid then ?N else 0)
                    * length (filter (\<lambda>a. a_activity_id a = ?j) (Damage_Activity db))"
    by (rule sum_list_indicator)
  also have "\<dots> = (if ?j = aid then (if aid \<in> a_activity_id ` set (Damage_Activity db)
                  then ?N else 0) else 0)"
    by (simp add: distinct_key_count [OF assms(1)])
  finally show ?thesis .
qed

lemma joined_cost_rows_count:
  assumes "distinct (map dta_activity_id
             (filter (\<lambda>dta. dta_damage_type_id dta = dt) (Damage_DamageTypeActivity db)))"
    and "distinct (map a_activity_id (Damage_Activity db))"
    and "distinct (map u_unit_id (Damage_Unit db))"
  shows "length (filter (\<lambda>r. activity_id r = aid) (joined_cost_rows db dt pb sbid lang)) =
     (if aid \<in> set (map dta_activity_id
                      (filter (\<lambda>dta. dta_damage_type_id dta = dt) (Damage_DamageTypeActivity db)))
         \<and> aid \<in> set (map a_activity_id (Damage_Activity db))
      then length (filter (applicable aid pb sbid) (Damage_ActivityCost db)) else 0)"
proof -
  let ?M = "if aid \<in> a_activity_id ` set (Damage_Activity db)
            then length (filter (applicable aid pb sbid) (Damage_ActivityCost db)) else 0"
  let ?D = "filter (\<lambda>dta. dta_damage_type_id dta = dt) (Damage_DamageTypeActivity db)"
  have "length (filter (\<lambda>r. activity_id r = aid) (joined_cost_rows db dt pb sbid lang))
      = (\<Sum>dta\<leftarrow>Damage_DamageTypeActivity db.
           if dta_damage_type_id dta = dt then (if dta_activity_id dta = aid then ?M else 0) else 0)"
    unfolding joined_cost_rows_def
    by (rule count_layer, rule activity_layer_count [OF assms(2) assms(3)])
  also have "\<dots> = (\<Sum>dta\<leftarrow>?D. if dta_activity_id dta = aid then ?M else 0)"
    by (rule sum_list_if_filter)
  also have "\<dots> = ?M * length (filter (\<lambda>dta. dta_activity_id dta = aid) ?D)"
    by (rule sum_list_indicator)
  also have "\<dots> = (if aid \<in> dta_activity_id ` set ?D then ?M else 0)"
    by (simp only: distinct_key_count [OF assms(1)]) simp
  finally show ?thesis by simp
qed

lemma count_le1_distinct:
  "(\<And>k. length (filter (\<lambda>x. key x = k) xs) \<le> 1) \<Longrightarrow> distinct (map key xs)"
proof (induction xs)
  case Nil
  show ?case by simp
next
  case (Cons x xs)
  have "key x \<notin> key ` set xs"
  proof
    assume "key x \<in> key ` set xs"
    then obtain y where "y \<in> set xs" "key y = key x" by auto
    then have "filter (\<lambda>z. key z = key x) xs \<noteq> []" by (auto simp: filter_empty_conv)
    then have "0 < length (filter (\<lambda>z. key z = key x) xs)" by simp
    with Cons.prems [of "key x"] show False by simp
  qed
  moreover have "distinct (map key xs)"
  proof (rule Cons.IH)
    fix k
    from Cons.prems [of k] show "length (filter (\<lambda>x. key x = k) xs) \<le> 1"
      by (simp split: if_splits)
  qed
  ultimately show ?case by simp
qed

text \<open>
  C2, as amended. When an activity is associated at most once with the damage type and
  activity ids and unit ids are unique, the calculator produces one line per cost row: the
  lines carry the codes of the fetched rows in the same order, and the rows of an activity
  that is associated with the damage type are as many as its cost rows that match the price
  book and either the chosen band or no band (none for any other activity). When no activity
  has more than one such cost row, no activity appears more than once.
\<close>

theorem fetch_cost_rows_lines_per_cost_row:
  assumes "distinct (map dta_activity_id
             (filter (\<lambda>dta. dta_damage_type_id dta = dt) (Damage_DamageTypeActivity db)))"
    and "distinct (map a_activity_id (Damage_Activity db))"
    and "distinct (map u_unit_id (Damage_Unit db))"
  shows "map e_activity_code (estimate_costs (fetch_cost_rows db dt pb sbid lang) s)
           = map activity_code (fetch_cost_rows db dt pb sbid lang)
    \<and> length (filter (\<lambda>r. activity_id r = aid) (fetch_cost_rows db dt pb sbid lang)) =
       (if aid \<in> set (map dta_activity_id
                        (filter (\<lambda>dta. dta_damage_type_id dta = dt) (Damage_DamageTypeActivity db)))
           \<and> aid \<in> set (map a_activity_id (Damage_Activity db))
        then length (filter (applicable aid pb sbid) (Damage_ActivityCost db)) else 0)
    \<and> ((\<forall>a. length (filter (applicable a pb sbid) (Damage_ActivityCost db)) \<le> 1) \<longrightarrow>
         distinct (map activity_id (fetch_cost_rows db dt pb sbid lang)))"
proof (intro conjI impI)
  show "map e_activity_code (estimate_costs (fetch_cost_rows db dt pb sbid lang) s)
           = map activity_code (fetch_cost_rows db dt pb sbid lang)"
    by (simp add: estimate_costs_map estimate_row_def Let_def)
next
  have count: "length (filter (\<lambda>r. activity_id r = k) (fetch_cost_rows db dt pb sbid lang))
      = length (filter (\<lambda>r. activity_id r = k) (joined_cost_rows db dt pb sbid lang))" for k
    by (simp add: fetch_cost_rows_def filter_sort)
  show "length (filter (\<lambda>r. activity_id r = aid) (fetch_cost_rows db dt pb sbid lang)) =
       (if aid \<in> set (map dta_activity_id
                        (filter (\<lambda>dta. dta_damage_type_id dta = dt) (Damage_DamageTypeActivity db)))
           \<and> aid \<in> set (map a_activity_id (Damage_Activity db))
        then length (filter (applicable aid pb sbid) (Damage_ActivityCost db)) else 0)"
    unfolding count by (rule joined_cost_rows_count [OF assms])
  assume one: "\<forall>a. length (filter (applicable a pb sbid) (Damage_ActivityCost db)) \<le> 1"
  show "distinct (map activity_id (fetch_cost_rows db dt pb sbid lang))"
  proof (rule count_le1_distinct)
    fix k
    from one show "length (filter (\<lambda>r. activity_id r = k) (fetch_cost_rows db dt pb sbid lang)) \<le> 1"
      unfolding count by (simp add: joined_cost_rows_count [OF assms])
  qed
qed

lemma sample_keys:
  "distinct (map dta_activity_id
     (filter (\<lambda>dta. dta_damage_type_id dta = 1) (Damage_DamageTypeActivity sample_store)))"
  "distinct (map a_activity_id (Damage_Activity sample_store))"
  "distinct (map u_unit_id (Damage_Unit sample_store))"
  by (simp_all add: sample_store_def)

lemma sample_one_cost_row:
  "length (filter (applicable a 11 1) (Damage_ActivityCost sample_store)) \<le> 1"
  by (simp add: sample_store_def applicable_def)

theorem fetch_cost_rows_lines_per_cost_row_witness:
  "distinct (map dta_activity_id
     (filter (\<lambda>dta. dta_damage_type_id dta = 1) (Damage_DamageTypeActivity sample_store)))
   \<and> distinct (map a_activity_id (Damage_Activity sample_store))
   \<and> distinct (map u_unit_id (Damage_Unit sample_store))
   \<and> length (filter (applicable 100 11 1) (Damage_ActivityCost sample_store)) = 1
   \<and> length (filter (\<lambda>r. activity_id r = 100) (fetch_cost_rows sample_store 1 11 1 ''en'')) = 1
   \<and> distinct (map activity_id (fetch_cost_rows sample_store 1 11 1 ''en''))"
proof -
  note t = fetch_cost_rows_lines_per_cost_row [OF sample_keys, of 11 1 "''en''" 3 100]
  have n: "length (filter (applicable 100 11 1) (Damage_ActivityCost sample_store)) = 1"
    by (simp add: sample_store_def applicable_def)
  have "length (filter (\<lambda>r. activity_id r = 100) (fetch_cost_rows sample_store 1 11 1 ''en''))
      = (if 100 \<in> set (map dta_activity_id
                        (filter (\<lambda>dta. dta_damage_type_id dta = 1)
                           (Damage_DamageTypeActivity sample_store)))
           \<and> 100 \<in> set (map a_activity_id (Damage_Activity sample_store))
        then length (filter (applicable 100 11 1) (Damage_ActivityCost sample_store)) else 0)"
    by (rule t [THEN conjunct2, THEN conjunct1])
  also have "\<dots> = 1"
    unfolding n by (simp add: sample_store_def)
  finally have c: "length (filter (\<lambda>r. activity_id r = 100)
      (fetch_cost_rows sample_store 1 11 1 ''en'')) = 1" .
  have "\<forall>a. length (filter (applicable a 11 1) (Damage_ActivityCost sample_store)) \<le> 1"
    by (rule allI, rule sample_one_cost_row)
  with t [THEN conjunct2, THEN conjunct2]
  have d: "distinct (map activity_id (fetch_cost_rows sample_store 1 11 1 ''en''))" by (rule mp)
  from sample_keys n c d show ?thesis by (intro conjI)
qed

text \<open>
  C2, as stated, fails: an activity with a cost row for all bands and a cost row for the
  chosen band, both in the selected price book, gets two lines.
\<close>

theorem activity_with_two_cost_rows:
  "map activity_id (fetch_cost_rows dup_store 1 11 1 ''en'') = [100, 100]
   \<and> map e_activity_code (estimate_costs (fetch_cost_rows dup_store 1 11 1 ''en'') 3)
       = [''CLEAN'', ''CLEAN'']
   \<and> map estimated_labor (estimate_costs (fetch_cost_rows dup_store 1 11 1 ''en'') 3)
       = [Some 30, Some 36]"
  by (simp add: fetch_cost_rows_def joined_cost_rows_def cost_row_of_def applicable_def
      left_join_unit_def dup_store_def sample_store_def estimate_row_def)

end
